theory Spec2Isabelle
  imports Complex_Main
begin

section \<open>Strapdown inertial integration: the estimator activity\<close>

text \<open>
  A shallow embedding of \<^verbatim>\<open>imu_integration/src/estimator/activity.cpp\<close>.
  A C++ \<^verbatim>\<open>double\<close> is modelled as a \<^typ>\<open>real\<close>: the arithmetic below is the
  exact arithmetic that the floating-point operations of the source approximate.
  Where a property is about a value being defined at all, the quotients and roots
  are checked explicitly (the routines named \<open>_checked\<close>).
  A \<^verbatim>\<open>std::deque\<close> is a list whose head is the front and whose last element is the
  back. A \<^verbatim>\<open>size_t\<close> index is a \<^typ>\<open>nat\<close>.
\<close>

subsection \<open>Vectors, matrices and quaternions\<close>

datatype Vector3d = Vector3d (vec_x: real) (vec_y: real) (vec_z: real)

instantiation Vector3d :: "{zero, plus, minus}"
begin

definition zero_Vector3d :: Vector3d where
  "zero_Vector3d = Vector3d 0 0 0"

definition plus_Vector3d :: "Vector3d \<Rightarrow> Vector3d \<Rightarrow> Vector3d" where
  "plus_Vector3d u v = Vector3d (vec_x u + vec_x v) (vec_y u + vec_y v) (vec_z u + vec_z v)"

definition minus_Vector3d :: "Vector3d \<Rightarrow> Vector3d \<Rightarrow> Vector3d" where
  "minus_Vector3d u v = Vector3d (vec_x u - vec_x v) (vec_y u - vec_y v) (vec_z u - vec_z v)"

instance ..

end

text \<open>Scalar times vector, \<^verbatim>\<open>c*v\<close>.\<close>

definition smul :: "real \<Rightarrow> Vector3d \<Rightarrow> Vector3d" where
  "smul c v = Vector3d (c * vec_x v) (c * vec_y v) (c * vec_z v)"

text \<open>A 3x3 matrix, coefficients in row-major order: \<open>m01\<close> is row 0, column 1.\<close>

datatype Matrix3d = Matrix3d
  (m00: real) (m01: real) (m02: real)
  (m10: real) (m11: real) (m12: real)
  (m20: real) (m21: real) (m22: real)

text \<open>Matrix times vector, \<^verbatim>\<open>R*v\<close>.\<close>

definition mat_vec :: "Matrix3d \<Rightarrow> Vector3d \<Rightarrow> Vector3d" where
  "mat_vec R v = Vector3d
     (m00 R * vec_x v + m01 R * vec_y v + m02 R * vec_z v)
     (m10 R * vec_x v + m11 R * vec_y v + m12 R * vec_z v)
     (m20 R * vec_x v + m21 R * vec_y v + m22 R * vec_z v)"

text \<open>
  The 4x4 pose. The source reads and writes it only through its rotation block
  \<^verbatim>\<open>block<3,3>(0,0)\<close> and its translation block \<^verbatim>\<open>block<3,1>(0,3)\<close>; the fourth row
  is carried along.
\<close>

record Matrix4d =
  block33 :: Matrix3d
  block31 :: Vector3d
  row3 :: "real \<times> real \<times> real \<times> real"

subsection \<open>Samples and the activity's members\<close>

record IMUData =
  time :: real
  linear_acceleration :: Vector3d
  angular_velocity :: Vector3d

record OdomData =
  time :: real
  pose :: Matrix4d
  vel :: Vector3d

text \<open>
  The members of \<^verbatim>\<open>Activity\<close> that the estimator reads or writes (the trailing
  underscore of the member names is dropped). \<open>unsynced_odom\<close> and \<open>sensor_inited\<close>
  are the two function-local \<^verbatim>\<open>static\<close> variables of \<^verbatim>\<open>UpdatePose\<close>, which live as
  long as the members do.
\<close>

record Activity =
  initialized :: bool
  G :: Vector3d
  angular_vel_bias :: Vector3d
  linear_acc_bias :: Vector3d
  imu_data_buff :: "IMUData list"
  odom_data_buff :: "OdomData list"
  pose :: Matrix4d
  vel :: Vector3d
  init_time :: real
  unsynced_odom :: "OdomData list"
  sensor_inited :: bool

subsection \<open>Bias and gravity compensation\<close>

definition GetUnbiasedAngularVel :: "Activity \<Rightarrow> Vector3d \<Rightarrow> Vector3d" where
  "GetUnbiasedAngularVel s angular_vel = angular_vel - angular_vel_bias s"

definition GetUnbiasedLinearAcc :: "Activity \<Rightarrow> Vector3d \<Rightarrow> Matrix3d \<Rightarrow> Vector3d" where
  "GetUnbiasedLinearAcc s linear_acc R = mat_vec R (linear_acc - linear_acc_bias s) - G s"

subsection \<open>Angular and velocity deltas\<close>

text \<open>
  Both routines return \<^verbatim>\<open>bool\<close> and write their results through reference
  parameters only when they return \<^verbatim>\<open>true\<close>: \<open>None\<close> is \<^verbatim>\<open>return false\<close>, \<open>Some\<close>
  carries what was written. Past the guard both indices are below the buffer size, so
  the two \<^verbatim>\<open>at\<close> calls cannot throw.
\<close>

definition GetAngularDelta :: "Activity \<Rightarrow> nat \<Rightarrow> nat \<Rightarrow> Vector3d option" where
  "GetAngularDelta s index_curr index_prev =
     (if index_curr \<le> index_prev \<or> length (imu_data_buff s) \<le> index_curr then None
      else
        let imu_data_curr = imu_data_buff s ! index_curr;
            imu_data_prev = imu_data_buff s ! index_prev;
            delta_t = IMUData.time imu_data_curr - IMUData.time imu_data_prev;
            angular_vel_curr = GetUnbiasedAngularVel s (angular_velocity imu_data_curr);
            angular_vel_prev = GetUnbiasedAngularVel s (angular_velocity imu_data_prev)
        in Some (smul (0.5 * delta_t) (angular_vel_curr + angular_vel_prev)))"

definition GetVelocityDelta ::
  "Activity \<Rightarrow> nat \<Rightarrow> nat \<Rightarrow> Matrix3d \<Rightarrow> Matrix3d \<Rightarrow> (real \<times> Vector3d) option" where
  "GetVelocityDelta s index_curr index_prev R_curr R_prev =
     (if index_curr \<le> index_prev \<or> length (imu_data_buff s) \<le> index_curr then None
      else
        let imu_data_curr = imu_data_buff s ! index_curr;
            imu_data_prev = imu_data_buff s ! index_prev;
            delta_t = IMUData.time imu_data_curr - IMUData.time imu_data_prev;
            linear_acc_curr = GetUnbiasedLinearAcc s (linear_acceleration imu_data_curr) R_curr;
            linear_acc_prev = GetUnbiasedLinearAcc s (linear_acceleration imu_data_prev) R_prev
        in Some (delta_t, smul (0.5 * delta_t) (linear_acc_curr + linear_acc_prev)))"

subsection \<open>Position update\<close>

text \<open>
  Two statements in sequence: the translation block is advanced first, from the
  velocity as it is then; the velocity is advanced second.
\<close>

definition UpdatePosition :: "real \<Rightarrow> Vector3d \<Rightarrow> Activity \<Rightarrow> Activity" where
  "UpdatePosition delta_t velocity_delta s =
     (let s1 = s\<lparr>Activity.pose := (Activity.pose s)\<lparr>block31 :=
                 block31 (Activity.pose s)
                   + (smul delta_t (Activity.vel s) + smul (0.5 * delta_t) velocity_delta)\<rparr>\<rparr>
      in s1\<lparr>Activity.vel := Activity.vel s1 + velocity_delta\<rparr>)"

subsection \<open>The Eigen routines that the orientation update calls\<close>

text \<open>
  \<^verbatim>\<open>UpdateOrientation\<close> is written in terms of the Eigen linear-algebra library:
  \<^verbatim>\<open>norm\<close>, \<^verbatim>\<open>normalized\<close>, the quaternion constructors, the quaternion product and
  \<^verbatim>\<open>toRotationMatrix\<close>. Eigen is a third-party header library, not a part of this
  repository; the definitions of this subsection follow the routines of Eigen 3.3
  (\<^verbatim>\<open>Eigen/src/Core/Dot.h\<close>, \<^verbatim>\<open>Eigen/src/Geometry/Quaternion.h\<close>), coefficient by
  coefficient.
\<close>

definition squaredNorm :: "Vector3d \<Rightarrow> real" where
  "squaredNorm v = vec_x v * vec_x v + vec_y v * vec_y v + vec_z v * vec_z v"

definition norm3 :: "Vector3d \<Rightarrow> real" where
  "norm3 v = sqrt (squaredNorm v)"

text \<open>
  \<^verbatim>\<open>MatrixBase::normalized\<close>: the quotient of the vector by its norm; when the squared
  norm is not positive the library returns a copy of the input.
\<close>

definition normalized :: "Vector3d \<Rightarrow> Vector3d" where
  "normalized v =
     (let z = squaredNorm v
      in if z > 0 then Vector3d (vec_x v / sqrt z) (vec_y v / sqrt z) (vec_z v / sqrt z)
         else v)"

text \<open>A quaternion, in the argument order of the constructor \<^verbatim>\<open>Quaterniond(w, x, y, z)\<close>.\<close>

datatype Quaterniond = Quaterniond (q_w: real) (q_x: real) (q_y: real) (q_z: real)

definition quat_squaredNorm :: "Quaterniond \<Rightarrow> real" where
  "quat_squaredNorm q = q_x q * q_x q + q_y q * q_y q + q_z q * q_z q + q_w q * q_w q"

definition quat_norm :: "Quaterniond \<Rightarrow> real" where
  "quat_norm q = sqrt (quat_squaredNorm q)"

text \<open>\<^verbatim>\<open>QuaternionBase::normalized\<close> normalises the coefficient vector, by the same routine.\<close>

definition quat_normalized :: "Quaterniond \<Rightarrow> Quaterniond" where
  "quat_normalized q =
     (let z = quat_squaredNorm q
      in if z > 0 then Quaterniond (q_w q / sqrt z) (q_x q / sqrt z) (q_y q / sqrt z) (q_z q / sqrt z)
         else q)"

text \<open>The quaternion product \<^verbatim>\<open>a*b\<close>.\<close>

definition quat_mul :: "Quaterniond \<Rightarrow> Quaterniond \<Rightarrow> Quaterniond" where
  "quat_mul a b = Quaterniond
     (q_w a * q_w b - q_x a * q_x b - q_y a * q_y b - q_z a * q_z b)
     (q_w a * q_x b + q_x a * q_w b + q_y a * q_z b - q_z a * q_y b)
     (q_w a * q_y b + q_y a * q_w b + q_z a * q_x b - q_x a * q_z b)
     (q_w a * q_z b + q_z a * q_w b + q_x a * q_y b - q_y a * q_x b)"

text \<open>\<^verbatim>\<open>mat.coeff(i, j)\<close>, and \<^verbatim>\<open>q.coeffs().coeffRef(i) = v\<close> on the storage order x, y, z, w.\<close>

definition coeff :: "Matrix3d \<Rightarrow> nat \<Rightarrow> nat \<Rightarrow> real" where
  "coeff M i j =
     (if i = 0 then (if j = 0 then m00 M else if j = 1 then m01 M else m02 M)
      else if i = 1 then (if j = 0 then m10 M else if j = 1 then m11 M else m12 M)
      else (if j = 0 then m20 M else if j = 1 then m21 M else m22 M))"

definition set_coeff :: "Quaterniond \<Rightarrow> nat \<Rightarrow> real \<Rightarrow> Quaterniond" where
  "set_coeff q i v =
     (if i = 0 then Quaterniond (q_w q) v (q_y q) (q_z q)
      else if i = 1 then Quaterniond (q_w q) (q_x q) v (q_z q)
      else if i = 2 then Quaterniond (q_w q) (q_x q) (q_y q) v
      else Quaterniond v (q_x q) (q_y q) (q_z q))"

text \<open>
  The constructor \<^verbatim>\<open>Quaterniond(const Matrix3d&)\<close>: the branch on the trace, then on the
  largest diagonal coefficient. Each branch assigns all four coefficients, so the
  value the quaternion starts from does not show in the result.
\<close>

definition Quaterniond_of_matrix :: "Matrix3d \<Rightarrow> Quaterniond" where
  "Quaterniond_of_matrix mat =
     (let t = m00 mat + m11 mat + m22 mat
      in if t > 0 then
           let t1 = sqrt (t + 1);
               w = 0.5 * t1;
               t2 = 0.5 / t1
           in Quaterniond w ((m21 mat - m12 mat) * t2) ((m02 mat - m20 mat) * t2)
                ((m10 mat - m01 mat) * t2)
         else
           let i0 = (if m11 mat > m00 mat then 1 else 0);
               i = (if m22 mat > coeff mat i0 i0 then 2 else i0);
               j = (i + 1) mod 3;
               k = (j + 1) mod 3;
               t1 = sqrt (coeff mat i i - coeff mat j j - coeff mat k k + 1);
               q1 = set_coeff (Quaterniond 0 0 0 0) i (0.5 * t1);
               t2 = 0.5 / t1;
               q2 = set_coeff q1 3 ((coeff mat k j - coeff mat j k) * t2);
               q3 = set_coeff q2 j ((coeff mat j i + coeff mat i j) * t2)
           in set_coeff q3 k ((coeff mat k i + coeff mat i k) * t2))"

text \<open>\<^verbatim>\<open>QuaternionBase::toRotationMatrix\<close>.\<close>

definition toRotationMatrix :: "Quaterniond \<Rightarrow> Matrix3d" where
  "toRotationMatrix q =
     (let tx = 2 * q_x q; ty = 2 * q_y q; tz = 2 * q_z q;
          twx = tx * q_w q; twy = ty * q_w q; twz = tz * q_w q;
          txx = tx * q_x q; txy = ty * q_x q; txz = tz * q_x q;
          tyy = ty * q_y q; tyz = tz * q_y q; tzz = tz * q_z q
      in Matrix3d
           (1 - (tyy + tzz)) (txy - twz) (txz + twy)
           (txy + twz) (1 - (txx + tzz)) (tyz - twx)
           (txz - twy) (tyz + twx) (1 - (txx + tyy)))"

subsection \<open>Orientation update\<close>

text \<open>
  The first half of \<^verbatim>\<open>UpdateOrientation\<close> builds the local \<^verbatim>\<open>dq\<close> from the
  angular delta alone: magnitude, direction, half-angle cosine and sine, and the
  quaternion constructor.
\<close>

definition delta_q :: "Vector3d \<Rightarrow> Quaterniond" where
  "delta_q angular_delta =
     (let angular_delta_mag = norm3 angular_delta;
          angular_delta_dir = normalized angular_delta;
          angular_delta_cos = cos (angular_delta_mag / 2);
          angular_delta_sin = sin (angular_delta_mag / 2)
      in Quaterniond angular_delta_cos
           (angular_delta_sin * vec_x angular_delta_dir)
           (angular_delta_sin * vec_y angular_delta_dir)
           (angular_delta_sin * vec_z angular_delta_dir))"

text \<open>
  The second half composes and writes back. The result is \<open>(R_curr, R_prev, s')\<close>:
  the two reference parameters as the routine leaves them, and the members after the
  call.
\<close>

definition UpdateOrientation :: "Vector3d \<Rightarrow> Activity \<Rightarrow> Matrix3d \<times> Matrix3d \<times> Activity" where
  "UpdateOrientation angular_delta s =
     (let dq = delta_q angular_delta;
          q = Quaterniond_of_matrix (block33 (Activity.pose s));
          q' = quat_mul q dq;
          R_prev = block33 (Activity.pose s);
          s' = s\<lparr>Activity.pose :=
                 (Activity.pose s)\<lparr>block33 := toRotationMatrix (quat_normalized q')\<rparr>\<rparr>;
          R_curr = block33 (Activity.pose s')
      in (R_curr, R_prev, s'))"

subsection \<open>The orientation update with its partial operations checked\<close>

text \<open>
  Over the reals every quotient and every square root has a value, also where a
  \<^verbatim>\<open>double\<close> has none: a quotient by zero and the root of a negative number give an
  infinity or a NaN. To state that a call produces no such value, this subsection
  repeats the routines on the path of \<^verbatim>\<open>UpdateOrientation\<close> with each quotient and
  each root checked: the result is \<open>None\<close> as soon as a divisor is zero or a radicand
  negative. The tests are the ones the routines have, in the same places; nothing is
  added.
\<close>

definition checked_div :: "real \<Rightarrow> real \<Rightarrow> real option" where
  "checked_div a b = (if b = 0 then None else Some (a / b))"

definition checked_sqrt :: "real \<Rightarrow> real option" where
  "checked_sqrt a = (if a < 0 then None else Some (sqrt a))"

text \<open>A vector and a quaternion divided by a scalar, coefficient by coefficient.\<close>

definition checked_quotient3 :: "Vector3d \<Rightarrow> real \<Rightarrow> Vector3d option" where
  "checked_quotient3 v n =
     Option.bind (checked_div (vec_x v) n) (\<lambda>x.
     Option.bind (checked_div (vec_y v) n) (\<lambda>y.
     Option.bind (checked_div (vec_z v) n) (\<lambda>z.
     Some (Vector3d x y z))))"


text \<open>\<^verbatim>\<open>norm\<close> and the two \<^verbatim>\<open>normalized\<close>, with the library's test on the squared norm.\<close>

definition norm3_checked :: "Vector3d \<Rightarrow> real option" where
  "norm3_checked v = checked_sqrt (squaredNorm v)"

definition normalized_checked :: "Vector3d \<Rightarrow> Vector3d option" where
  "normalized_checked v =
     (let z = squaredNorm v
      in if z > 0 then Option.bind (checked_sqrt z) (checked_quotient3 v)
         else Some v)"





subsection \<open>The cycle\<close>

text \<open>
  \<^verbatim>\<open>OdomData::SyncData(UnsyncedData, SyncedData, sync_time)\<close> is declared outside this
  source file. It takes both deques by reference and returns a validity flag, so it
  is a parameter of the model: a function from the two buffers and the time to the
  flag and the two buffers as it leaves them.
\<close>

type_synonym sync_data =
  "OdomData list \<Rightarrow> OdomData list \<Rightarrow> real \<Rightarrow> bool \<times> OdomData list \<times> OdomData list"

text \<open>
  \<^verbatim>\<open>UpdatePose\<close> returns a flag and changes members. \<open>None\<close> stands for undefined
  behaviour of the C++: \<^verbatim>\<open>back()\<close> of an empty deque. In the integrating branch
  \<^verbatim>\<open>size() - 1\<close> comes after such a \<^verbatim>\<open>back()\<close>, so it is taken of a nonempty buffer
  and does not wrap.
\<close>

definition UpdatePose :: "sync_data \<Rightarrow> Activity \<Rightarrow> (bool \<times> Activity) option" where
  "UpdatePose SyncData s =
     (if \<not> initialized s then
        let s1 = s\<lparr>unsynced_odom := odom_data_buff s\<rparr>
        in if length (imu_data_buff s1) = 0 then Some (False, s1)
           else
             let cloud_time = IMUData.time (last (imu_data_buff s1));
                 (valid_odom, unsynced', synced') =
                    SyncData (unsynced_odom s1) (odom_data_buff s1) cloud_time;
                 s2 = s1\<lparr>unsynced_odom := unsynced', odom_data_buff := synced'\<rparr>
             in if \<not> sensor_inited s2 \<and> \<not> valid_odom then Some (False, s2)
                else
                  let s3 = (if \<not> sensor_inited s2 then s2\<lparr>sensor_inited := True\<rparr> else s2)
                  in if odom_data_buff s3 = [] then None
                     else
                       let odom_data = last (odom_data_buff s3);
                           imu_data = last (imu_data_buff s3)
                       in Some (True,
                            s3\<lparr>Activity.pose := OdomData.pose odom_data,
                               Activity.vel := OdomData.vel odom_data,
                               init_time := OdomData.time odom_data,
                               initialized := True,
                               odom_data_buff := [odom_data],
                               imu_data_buff := [imu_data]\<rparr>)
      else
        if imu_data_buff s = [] then None
        else
          let imu_data = last (imu_data_buff s);
              index_curr = length (imu_data_buff s) - 1;
              index_prev = 0
          in case GetAngularDelta s index_curr index_prev of
               None \<Rightarrow> Some (False, s)
             | Some angular_delta \<Rightarrow>
                 let (R_curr, R_prev, s1) = UpdateOrientation angular_delta s
                 in (case GetVelocityDelta s1 index_curr index_prev R_curr R_prev of
                       None \<Rightarrow> Some (False, s1)
                     | Some (delta_t, velocity_delta) \<Rightarrow>
                         let s2 = UpdatePosition delta_t velocity_delta s1;
                             s3 = s2\<lparr>imu_data_buff := [imu_data]\<rparr>
                         in if odom_data_buff s3 = [] then None
                            else Some (True,
                                   s3\<lparr>odom_data_buff := [last (odom_data_buff s3)]\<rparr>)))"

definition HasData :: "Activity \<Rightarrow> bool" where
  "HasData s =
     (if length (imu_data_buff s) < 2 then False
      else if length (odom_data_buff s) < 2 then False
      else True)"

text \<open>
  Modelled from the spec: the subscribers' \<^verbatim>\<open>ParseData\<close> is not in this source file;
  the caller "first drains available sensor samples into the buffers", so \<open>ReadData\<close>
  appends the samples that have arrived, in order, to the back of each buffer. It
  always returns \<^verbatim>\<open>true\<close>.
\<close>

definition ReadData :: "IMUData list \<Rightarrow> OdomData list \<Rightarrow> Activity \<Rightarrow> Activity" where
  "ReadData new_imu new_odom s =
     s\<lparr>imu_data_buff := imu_data_buff s @ new_imu,
       odom_data_buff := odom_data_buff s @ new_odom\<rparr>"

text \<open>
  The loop of \<^verbatim>\<open>Run\<close>. \<^verbatim>\<open>PublishPose\<close> and \<^verbatim>\<open>SaveTrajectoryTum\<close>, called after a
  cycle that returned \<^verbatim>\<open>true\<close>, write to a topic and to files and to no member that
  the estimator reads; they are left out. The loop need not end (a cycle that
  returns \<^verbatim>\<open>false\<close> may leave both buffers as they were): \<open>None\<close> is a loop that
  does not return, or undefined behaviour inside a cycle.
\<close>

partial_function (option) Run_loop :: "sync_data \<Rightarrow> Activity \<Rightarrow> Activity option" where
  "Run_loop SyncData s =
     (if HasData s
      then Option.bind (UpdatePose SyncData s) (\<lambda>r. Run_loop SyncData (snd r))
      else Some s)"

definition Run ::
  "sync_data \<Rightarrow> IMUData list \<Rightarrow> OdomData list \<Rightarrow> Activity \<Rightarrow> (bool \<times> Activity) option" where
  "Run SyncData new_imu new_odom s =
     map_option (\<lambda>s'. (True, s')) (Run_loop SyncData (ReadData new_imu new_odom s))"

text \<open>
  The constructor sets the flag and the three calibration vectors; the pose, the
  velocity and the initial time are left as they are allocated. The buffers start
  empty and the \<^verbatim>\<open>static\<close> flag of \<^verbatim>\<open>UpdatePose\<close> starts \<^verbatim>\<open>false\<close>.
\<close>

definition constructed :: "Activity \<Rightarrow> bool" where
  "constructed s \<longleftrightarrow>
     \<not> initialized s \<and> G s = Vector3d 0 0 (- 9.81) \<and>
     angular_vel_bias s = Vector3d 0 0 0 \<and> linear_acc_bias s = Vector3d 0 0 0 \<and>
     imu_data_buff s = [] \<and> odom_data_buff s = [] \<and>
     unsynced_odom s = [] \<and> \<not> sensor_inited s"

text \<open>
  \<^verbatim>\<open>Init\<close> reads the configuration: of the members modelled here it assigns the
  gravity and the two biases, from the parameter server's values.
\<close>

definition Init :: "Vector3d \<Rightarrow> Vector3d \<Rightarrow> Vector3d \<Rightarrow> Activity \<Rightarrow> Activity" where
  "Init gravity bias_angular_velocity bias_linear_acceleration s =
     s\<lparr>G := gravity,
       angular_vel_bias := bias_angular_velocity,
       linear_acc_bias := bias_linear_acceleration\<rparr>"

text \<open>
  A session: from a state, any number of calls of \<open>Init\<close>, \<open>ReadData\<close> and
  \<open>UpdatePose\<close> (each with a defined result), in any order.
\<close>

inductive session :: "sync_data \<Rightarrow> Activity \<Rightarrow> Activity \<Rightarrow> bool" for SyncData s where
  session_start: "session SyncData s s"
| session_init: "session SyncData s s1 \<Longrightarrow> session SyncData s (Init g ba bl s1)"
| session_read: "session SyncData s s1 \<Longrightarrow> session SyncData s (ReadData new_imu new_odom s1)"
| session_update:
    "session SyncData s s1 \<Longrightarrow> UpdatePose SyncData s1 = Some (r, s2) \<Longrightarrow> session SyncData s s2"

subsection \<open>Rotation matrices\<close>

definition det3 :: "Matrix3d \<Rightarrow> real" where
  "det3 R =
     m00 R * (m11 R * m22 R - m12 R * m21 R)
     - m01 R * (m10 R * m22 R - m12 R * m20 R)
     + m02 R * (m10 R * m21 R - m11 R * m20 R)"

text \<open>The three columns have unit norm and are mutually orthogonal.\<close>

definition orthonormal_columns :: "Matrix3d \<Rightarrow> bool" where
  "orthonormal_columns R \<longleftrightarrow>
     m00 R * m00 R + m10 R * m10 R + m20 R * m20 R = 1 \<and>
     m01 R * m01 R + m11 R * m11 R + m21 R * m21 R = 1 \<and>
     m02 R * m02 R + m12 R * m12 R + m22 R * m22 R = 1 \<and>
     m00 R * m01 R + m10 R * m11 R + m20 R * m21 R = 0 \<and>
     m00 R * m02 R + m10 R * m12 R + m20 R * m22 R = 0 \<and>
     m01 R * m02 R + m11 R * m12 R + m21 R * m22 R = 0"

definition is_rotation :: "Matrix3d \<Rightarrow> bool" where
  "is_rotation R \<longleftrightarrow> det3 R = 1 \<and> orthonormal_columns R"

definition identity3 :: Matrix3d where
  "identity3 = Matrix3d 1 0 0 0 1 0 0 0 1"

subsection \<open>The orientation update as the specification words it\<close>

text \<open>
  The increment by the exponential map, \<open>dq = (cos(m/2), sin(m/2)\<cdot>d)\<close> with
  \<open>m = \<parallel>\<Delta>\<theta>\<parallel>\<close> and \<open>d = \<Delta>\<theta>/m\<close>; the quaternion divided by its norm; and
  the new rotation, the matrix of the renormalised product \<open>q_old \<cdot> dq\<close>.
\<close>

definition spec_direction :: "Vector3d \<Rightarrow> Vector3d" where
  "spec_direction dtheta =
     Vector3d (vec_x dtheta / norm3 dtheta) (vec_y dtheta / norm3 dtheta)
       (vec_z dtheta / norm3 dtheta)"

text \<open>
  The same direction with its quotient checked: "the unguarded direction normalization
  is undefined when \<open>m = 0\<close>".
\<close>

definition spec_direction_checked :: "Vector3d \<Rightarrow> Vector3d option" where
  "spec_direction_checked dtheta =
     Option.bind (norm3_checked dtheta) (checked_quotient3 dtheta)"

definition spec_dq :: "Vector3d \<Rightarrow> Quaterniond" where
  "spec_dq dtheta =
     (let m = norm3 dtheta; d = spec_direction dtheta
      in Quaterniond (cos (m / 2)) (sin (m / 2) * vec_x d) (sin (m / 2) * vec_y d)
           (sin (m / 2) * vec_z d))"

definition spec_unit :: "Quaterniond \<Rightarrow> Quaterniond" where
  "spec_unit q =
     Quaterniond (q_w q / quat_norm q) (q_x q / quat_norm q) (q_y q / quat_norm q)
       (q_z q / quat_norm q)"

definition spec_update_orientation :: "Vector3d \<Rightarrow> Matrix3d \<Rightarrow> Matrix3d" where
  "spec_update_orientation dtheta R =
     toRotationMatrix (spec_unit (quat_mul (Quaterniond_of_matrix R) (spec_dq dtheta)))"

subsection \<open>Sample data\<close>

definition imu_at :: "real \<Rightarrow> Vector3d \<Rightarrow> Vector3d \<Rightarrow> IMUData" where
  "imu_at t w f = \<lparr>IMUData.time = t, linear_acceleration = f, angular_velocity = w\<rparr>"

definition pose_of :: "Matrix3d \<Rightarrow> Vector3d \<Rightarrow> Matrix4d" where
  "pose_of R p = \<lparr>block33 = R, block31 = p, row3 = (0, 0, 0, 1)\<rparr>"

definition odom_at :: "real \<Rightarrow> Matrix4d \<Rightarrow> Vector3d \<Rightarrow> OdomData" where
  "odom_at t T v = \<lparr>OdomData.time = t, OdomData.pose = T, OdomData.vel = v\<rparr>"

text \<open>
  An activity in its integrating state, with the constructor's calibration (gravity
  \<open>(0, 0, -9.81)\<close>, zero biases), orientation \<open>R\<close>, position \<open>p\<close> and velocity \<open>v\<close>.
\<close>

definition integrating_state ::
  "Matrix3d \<Rightarrow> Vector3d \<Rightarrow> Vector3d \<Rightarrow> IMUData list \<Rightarrow> OdomData list \<Rightarrow> Activity" where
  "integrating_state R p v imus odoms =
     \<lparr>initialized = True,
      G = Vector3d 0 0 (- 9.81),
      angular_vel_bias = Vector3d 0 0 0,
      linear_acc_bias = Vector3d 0 0 0,
      imu_data_buff = imus,
      odom_data_buff = odoms,
      Activity.pose = pose_of R p,
      Activity.vel = v,
      init_time = 0,
      unsynced_odom = [],
      sensor_inited = True\<rparr>"

text \<open>An activity as constructed, then given buffered samples.\<close>

definition waiting_state :: "IMUData list \<Rightarrow> OdomData list \<Rightarrow> Activity" where
  "waiting_state imus odoms =
     \<lparr>initialized = False,
      G = Vector3d 0 0 (- 9.81),
      angular_vel_bias = Vector3d 0 0 0,
      linear_acc_bias = Vector3d 0 0 0,
      imu_data_buff = imus,
      odom_data_buff = odoms,
      Activity.pose = pose_of (Matrix3d 0 0 0 0 0 0 0 0 0) (Vector3d 0 0 0),
      Activity.vel = Vector3d 0 0 0,
      init_time = 0,
      unsynced_odom = [],
      sensor_inited = False\<rparr>"

text \<open>
  Two stand-ins for the synchroniser: one that reports a valid sample and leaves both
  buffers as they are, one that reports none.
\<close>

definition sync_valid :: sync_data where
  "sync_valid unsynced synced t = (True, unsynced, synced)"

definition sync_invalid :: sync_data where
  "sync_invalid unsynced synced t = (False, unsynced, synced)"

section \<open>Properties\<close>

subsection \<open>Vector arithmetic on coefficients\<close>

lemma Vector3d_arith [simp]:
  "Vector3d a b c + Vector3d d e f = Vector3d (a + d) (b + e) (c + f)"
  "Vector3d a b c - Vector3d d e f = Vector3d (a - d) (b - e) (c - f)"
  "smul r (Vector3d a b c) = Vector3d (r * a) (r * b) (r * c)"
  by (simp_all add: plus_Vector3d_def minus_Vector3d_def smul_def)

lemma mat_vec_identity3 [simp]: "mat_vec identity3 v = v"
  by (simp add: mat_vec_def identity3_def)

subsection \<open>The two deltas\<close>

text \<open>
  Claim C2. For a pair of buffer indices with \<open>index_prev < index_curr\<close> below the
  buffer size, \<open>GetAngularDelta\<close> returns \<^verbatim>\<open>true\<close> and writes
  \<open>0.5 \<cdot> dt \<cdot> ((w_curr - bias) + (w_prev - bias))\<close>, and \<open>GetVelocityDelta\<close> returns
  \<^verbatim>\<open>true\<close> and writes \<open>dt\<close> and
  \<open>0.5 \<cdot> dt \<cdot> ((R_curr (f_curr - acc_bias) - gravity) + (R_prev (f_prev - acc_bias) - gravity))\<close>,
  where \<open>dt = t_curr - t_prev\<close>: the trapezoidal average of the compensated endpoint
  values times the time step.
\<close>

theorem deltas_trapezoidal:
  assumes "index_prev < index_curr" and "index_curr < length (imu_data_buff s)"
  shows "GetAngularDelta s index_curr index_prev =
           Some (smul (0.5 * (IMUData.time (imu_data_buff s ! index_curr)
                              - IMUData.time (imu_data_buff s ! index_prev)))
                   ((angular_velocity (imu_data_buff s ! index_curr) - angular_vel_bias s)
                    + (angular_velocity (imu_data_buff s ! index_prev) - angular_vel_bias s)))
         \<and> GetVelocityDelta s index_curr index_prev R_curr R_prev =
           Some (IMUData.time (imu_data_buff s ! index_curr)
                   - IMUData.time (imu_data_buff s ! index_prev),
                 smul (0.5 * (IMUData.time (imu_data_buff s ! index_curr)
                              - IMUData.time (imu_data_buff s ! index_prev)))
                   ((mat_vec R_curr (linear_acceleration (imu_data_buff s ! index_curr)
                                      - linear_acc_bias s) - G s)
                    + (mat_vec R_prev (linear_acceleration (imu_data_buff s ! index_prev)
                                        - linear_acc_bias s) - G s)))"
  using assms
  by (simp add: GetAngularDelta_def GetVelocityDelta_def GetUnbiasedAngularVel_def
      GetUnbiasedLinearAcc_def Let_def)

text \<open>
  At two samples half a second apart, turning at 2 and 4 rad/s about the vertical and
  reading \<open>(1, 0, -9.81)\<close> and \<open>(3, 0, -9.81)\<close>: the angular delta is 1.5 rad, the
  velocity delta 1 m/s along x.
\<close>

theorem deltas_trapezoidal_witness:
  "GetAngularDelta
     (integrating_state identity3 (Vector3d 0 0 0) (Vector3d 0 0 0)
        [imu_at 1 (Vector3d 0 0 2) (Vector3d 1 0 (- 9.81)),
         imu_at 1.5 (Vector3d 0 0 4) (Vector3d 3 0 (- 9.81))] []) 1 0
     = Some (Vector3d 0 0 1.5)
   \<and> GetVelocityDelta
     (integrating_state identity3 (Vector3d 0 0 0) (Vector3d 0 0 0)
        [imu_at 1 (Vector3d 0 0 2) (Vector3d 1 0 (- 9.81)),
         imu_at 1.5 (Vector3d 0 0 4) (Vector3d 3 0 (- 9.81))] []) 1 0 identity3 identity3
     = Some (0.5, Vector3d 1 0 0)"
  using deltas_trapezoidal [of 0 1
      "integrating_state identity3 (Vector3d 0 0 0) (Vector3d 0 0 0)
        [imu_at 1 (Vector3d 0 0 2) (Vector3d 1 0 (- 9.81)),
         imu_at 1.5 (Vector3d 0 0 4) (Vector3d 3 0 (- 9.81))] []" identity3 identity3]
  by (simp add: integrating_state_def imu_at_def)

text \<open>
  Claim C5, as the code has it. The two routines fail exactly on the index guard:
  \<open>index_curr \<le> index_prev\<close>, or \<open>index_curr\<close> not below the buffer size. The
  timestamps are not compared; for an index pair that passes the guard,
  \<open>GetVelocityDelta\<close> writes \<open>dt = t_curr - t_prev\<close> whatever its sign.
\<close>

theorem deltas_fail_on_indices_only:
  "(GetAngularDelta s index_curr index_prev = None
      \<longleftrightarrow> index_curr \<le> index_prev \<or> length (imu_data_buff s) \<le> index_curr)
   \<and> (GetVelocityDelta s index_curr index_prev R_curr R_prev = None
      \<longleftrightarrow> index_curr \<le> index_prev \<or> length (imu_data_buff s) \<le> index_curr)
   \<and> map_option fst (GetVelocityDelta s index_curr index_prev R_curr R_prev) =
       (if index_curr \<le> index_prev \<or> length (imu_data_buff s) \<le> index_curr then None
        else Some (IMUData.time (imu_data_buff s ! index_curr)
                   - IMUData.time (imu_data_buff s ! index_prev)))"
  by (simp add: GetAngularDelta_def GetVelocityDelta_def Let_def)

theorem deltas_fail_on_indices_only_witness:
  "GetAngularDelta
     (integrating_state identity3 (Vector3d 0 0 0) (Vector3d 0 0 0)
        [imu_at 2 (Vector3d 0 0 0) (Vector3d 0 0 0)] []) 1 0 = None
   \<and> map_option fst (GetVelocityDelta
     (integrating_state identity3 (Vector3d 0 0 0) (Vector3d 0 0 0)
        [imu_at 2 (Vector3d 0 0 0) (Vector3d 0 0 0),
         imu_at 2 (Vector3d 0 0 0) (Vector3d 0 0 0)] []) 1 0 identity3 identity3) = Some 0"
  using deltas_fail_on_indices_only [of
      "integrating_state identity3 (Vector3d 0 0 0) (Vector3d 0 0 0)
        [imu_at 2 (Vector3d 0 0 0) (Vector3d 0 0 0)] []" 1 0 identity3 identity3]
    deltas_fail_on_indices_only [of
      "integrating_state identity3 (Vector3d 0 0 0) (Vector3d 0 0 0)
        [imu_at 2 (Vector3d 0 0 0) (Vector3d 0 0 0),
         imu_at 2 (Vector3d 0 0 0) (Vector3d 0 0 0)] []" 1 0 identity3 identity3]
  by (simp add: integrating_state_def imu_at_def)

subsection \<open>The position update\<close>

text \<open>
  Claim C3. \<open>UpdatePosition\<close> sets the position to
  \<open>p + (delta_t \<cdot> v + 0.5 \<cdot> delta_t \<cdot> velocity_delta)\<close>, with \<open>v\<close> the velocity before the
  call, and the velocity to \<open>v + velocity_delta\<close>. Nothing else changes: putting the
  old position and the old velocity back gives the state before the call, and the
  rotation block and the fourth row of the pose are as they were.
\<close>

theorem UpdatePosition_effect:
  "block31 (Activity.pose (UpdatePosition delta_t velocity_delta s))
     = block31 (Activity.pose s)
       + (smul delta_t (Activity.vel s) + smul (0.5 * delta_t) velocity_delta)
   \<and> Activity.vel (UpdatePosition delta_t velocity_delta s) = Activity.vel s + velocity_delta
   \<and> block33 (Activity.pose (UpdatePosition delta_t velocity_delta s))
       = block33 (Activity.pose s)
   \<and> row3 (Activity.pose (UpdatePosition delta_t velocity_delta s)) = row3 (Activity.pose s)
   \<and> (UpdatePosition delta_t velocity_delta s)
        \<lparr>Activity.pose := Activity.pose s, Activity.vel := Activity.vel s\<rparr> = s"
  by (simp add: UpdatePosition_def Let_def)

text \<open>
  From position \<open>(1, 2, 3)\<close> with velocity \<open>(1, 0, 0)\<close>, a step of 2 s with a velocity
  delta of \<open>(0, 4, 0)\<close>: the position advances by \<open>2\<cdot>(1,0,0) + 1\<cdot>(0,4,0)\<close>.
\<close>

theorem UpdatePosition_effect_witness:
  "block31 (Activity.pose (UpdatePosition 2 (Vector3d 0 4 0)
      (integrating_state identity3 (Vector3d 1 2 3) (Vector3d 1 0 0) [] []))) = Vector3d 3 6 3
   \<and> Activity.vel (UpdatePosition 2 (Vector3d 0 4 0)
      (integrating_state identity3 (Vector3d 1 2 3) (Vector3d 1 0 0) [] [])) = Vector3d 1 4 0"
  using UpdatePosition_effect [of 2 "Vector3d 0 4 0"
      "integrating_state identity3 (Vector3d 1 2 3) (Vector3d 1 0 0) [] []"]
  by (simp add: integrating_state_def pose_of_def)

subsection \<open>Unit quaternions and rotation matrices\<close>

lemma quat_mul_squaredNorm:
  "quat_squaredNorm (quat_mul p q) = quat_squaredNorm p * quat_squaredNorm q"
  by (simp add: quat_squaredNorm_def quat_mul_def algebra_simps)

lemma quat_normalized_unit:
  assumes "quat_squaredNorm q > 0"
  shows "quat_squaredNorm (quat_normalized q) = 1"
proof -
  let ?z = "quat_squaredNorm q"
  have quot: "(r / sqrt ?z) * (r / sqrt ?z) = r * r / ?z" for r
    using assms by simp
  have "quat_squaredNorm (quat_normalized q)
        = q_x q * q_x q / ?z + q_y q * q_y q / ?z + q_z q * q_z q / ?z + q_w q * q_w q / ?z"
    using assms
    by (simp add: quat_normalized_def Let_def quot
        quat_squaredNorm_def [of "Quaterniond r1 r2 r3 r4" for r1 r2 r3 r4])
  also have "\<dots> = (q_x q * q_x q + q_y q * q_y q + q_z q * q_z q + q_w q * q_w q) / ?z"
    by (simp only: add_divide_distrib)
  also have "\<dots> = ?z / ?z" by (simp only: quat_squaredNorm_def)
  also have "\<dots> = 1" using assms by simp
  finally show ?thesis .
qed

text \<open>
  For a unit quaternion the diagonal of \<open>toRotationMatrix\<close> can be written without
  the constant 1; the matrix is then homogeneous of degree two in the coefficients,
  and its determinant and the products of its columns are polynomial identities.
\<close>

lemma toRotationMatrix_homogeneous:
  assumes "quat_squaredNorm q = 1"
  shows "toRotationMatrix q = Matrix3d
     (q_w q * q_w q + q_x q * q_x q - q_y q * q_y q - q_z q * q_z q)
     (2 * (q_x q * q_y q - q_w q * q_z q))
     (2 * (q_x q * q_z q + q_w q * q_y q))
     (2 * (q_x q * q_y q + q_w q * q_z q))
     (q_w q * q_w q - q_x q * q_x q + q_y q * q_y q - q_z q * q_z q)
     (2 * (q_y q * q_z q - q_w q * q_x q))
     (2 * (q_x q * q_z q - q_w q * q_y q))
     (2 * (q_y q * q_z q + q_w q * q_x q))
     (q_w q * q_w q - q_x q * q_x q - q_y q * q_y q + q_z q * q_z q)"
  using assms by (simp add: toRotationMatrix_def Let_def quat_squaredNorm_def algebra_simps)

lemma homogeneous_det:
  fixes w x y z :: real
  shows "det3 (Matrix3d
     (w * w + x * x - y * y - z * z) (2 * (x * y - w * z)) (2 * (x * z + w * y))
     (2 * (x * y + w * z)) (w * w - x * x + y * y - z * z) (2 * (y * z - w * x))
     (2 * (x * z - w * y)) (2 * (y * z + w * x)) (w * w - x * x - y * y + z * z))
   = (x * x + y * y + z * z + w * w) * (x * x + y * y + z * z + w * w)
     * (x * x + y * y + z * z + w * w)"
  by (simp add: det3_def algebra_simps)

lemma homogeneous_orthonormal:
  fixes w x y z :: real
  assumes "x * x + y * y + z * z + w * w = 1"
  shows "orthonormal_columns (Matrix3d
     (w * w + x * x - y * y - z * z) (2 * (x * y - w * z)) (2 * (x * z + w * y))
     (2 * (x * y + w * z)) (w * w - x * x + y * y - z * z) (2 * (y * z - w * x))
     (2 * (x * z - w * y)) (2 * (y * z + w * x)) (w * w - x * x - y * y + z * z))"
proof -
  let ?n = "x * x + y * y + z * z + w * w"
  have sq: "?n * ?n = 1" using assms by simp
  have c0: "(w * w + x * x - y * y - z * z) * (w * w + x * x - y * y - z * z)
        + (2 * (x * y + w * z)) * (2 * (x * y + w * z))
        + (2 * (x * z - w * y)) * (2 * (x * z - w * y)) = ?n * ?n"
    by (simp add: algebra_simps)
  have c1: "(2 * (x * y - w * z)) * (2 * (x * y - w * z))
        + (w * w - x * x + y * y - z * z) * (w * w - x * x + y * y - z * z)
        + (2 * (y * z + w * x)) * (2 * (y * z + w * x)) = ?n * ?n"
    by (simp add: algebra_simps)
  have c2: "(2 * (x * z + w * y)) * (2 * (x * z + w * y))
        + (2 * (y * z - w * x)) * (2 * (y * z - w * x))
        + (w * w - x * x - y * y + z * z) * (w * w - x * x - y * y + z * z) = ?n * ?n"
    by (simp add: algebra_simps)
  have c01: "(w * w + x * x - y * y - z * z) * (2 * (x * y - w * z))
        + (2 * (x * y + w * z)) * (w * w - x * x + y * y - z * z)
        + (2 * (x * z - w * y)) * (2 * (y * z + w * x)) = 0"
    by (simp add: algebra_simps)
  have c02: "(w * w + x * x - y * y - z * z) * (2 * (x * z + w * y))
        + (2 * (x * y + w * z)) * (2 * (y * z - w * x))
        + (2 * (x * z - w * y)) * (w * w - x * x - y * y + z * z) = 0"
    by (simp add: algebra_simps)
  have c12: "(2 * (x * y - w * z)) * (2 * (x * z + w * y))
        + (w * w - x * x + y * y - z * z) * (2 * (y * z - w * x))
        + (2 * (y * z + w * x)) * (w * w - x * x - y * y + z * z) = 0"
    by (simp add: algebra_simps)
  show ?thesis
    unfolding orthonormal_columns_def Matrix3d.sel
    using c0 c1 c2 c01 c02 c12 sq by simp
qed

lemma toRotationMatrix_is_rotation:
  assumes "quat_squaredNorm q = 1"
  shows "is_rotation (toRotationMatrix q)"
proof -
  have u: "q_x q * q_x q + q_y q * q_y q + q_z q * q_z q + q_w q * q_w q = 1"
    using assms by (simp add: quat_squaredNorm_def)
  have "det3 (toRotationMatrix q) = 1"
    by (simp only: toRotationMatrix_homogeneous [OF assms] homogeneous_det u mult_1)
  moreover have "orthonormal_columns (toRotationMatrix q)"
    by (simp only: toRotationMatrix_homogeneous [OF assms] homogeneous_orthonormal [OF u])
  ultimately show ?thesis by (simp add: is_rotation_def)
qed

subsection \<open>The relations among the coefficients of a rotation matrix\<close>

lemma three_squares_zero:
  fixes x y z :: real
  assumes "x * x + y * y + z * z = 0"
  shows "x = 0" "y = 0" "z = 0"
proof -
  have "x * x \<ge> 0" "y * y \<ge> 0" "z * z \<ge> 0" by simp_all
  with assms have "x * x = 0" "y * y = 0" "z * z = 0" by linarith+
  then show "x = 0" "y = 0" "z = 0" by simp_all
qed

text \<open>
  With determinant 1, a column is the cross product of the two that follow it
  cyclically: the difference of the two has squared length
  \<open>|u|\<^sup>2|v|\<^sup>2 - (u\<cdot>v)\<^sup>2 - 2 det + 1 = 0\<close>.
\<close>

lemma cross_column:
  fixes a b c d e f g h k :: real
  assumes n0: "a * a + d * d + g * g = 1"
    and n1: "b * b + e * e + h * h = 1"
    and n2: "c * c + f * f + k * k = 1"
    and o12: "b * c + e * f + h * k = 0"
    and dt: "a * (e * k - f * h) + d * (h * c - b * k) + g * (b * f - e * c) = 1"
  shows "a - (e * k - f * h) = 0" "d - (h * c - b * k) = 0" "g - (b * f - e * c) = 0"
proof -
  have "(a - (e * k - f * h)) * (a - (e * k - f * h))
        + (d - (h * c - b * k)) * (d - (h * c - b * k))
        + (g - (b * f - e * c)) * (g - (b * f - e * c))
      = (b * b + e * e + h * h) * (c * c + f * f + k * k)
        - (b * c + e * f + h * k) * (b * c + e * f + h * k)
        - 2 * (a * (e * k - f * h) + d * (h * c - b * k) + g * (b * f - e * c))
        + (a * a + d * d + g * g)"
    by (simp add: algebra_simps)
  also have "\<dots> = 0" by (simp only: n0 n1 n2 o12 dt)
  finally have z: "(a - (e * k - f * h)) * (a - (e * k - f * h))
        + (d - (h * c - b * k)) * (d - (h * c - b * k))
        + (g - (b * f - e * c)) * (g - (b * f - e * c)) = 0" .
  show "a - (e * k - f * h) = 0" "d - (h * c - b * k) = 0" "g - (b * f - e * c) = 0"
    by (rule three_squares_zero [OF z])+
qed

lemma rotation_cofactors:
  fixes a b c d e f g h k :: real
  assumes "is_rotation (Matrix3d a b c d e f g h k)"
  shows "a - (e * k - f * h) = 0" "d - (h * c - b * k) = 0" "g - (b * f - e * c) = 0"
        "b - (f * g - d * k) = 0" "e - (k * a - c * g) = 0" "h - (c * d - f * a) = 0"
        "c - (d * h - e * g) = 0" "f - (g * b - a * h) = 0" "k - (a * e - d * b) = 0"
proof -
  from assms have n0: "a * a + d * d + g * g = 1" and n1: "b * b + e * e + h * h = 1"
    and n2: "c * c + f * f + k * k = 1" and o01: "a * b + d * e + g * h = 0"
    and o02: "a * c + d * f + g * k = 0" and o12: "b * c + e * f + h * k = 0"
    and dt: "a * (e * k - f * h) - b * (d * k - f * g) + c * (d * h - e * g) = 1"
    by (simp_all add: is_rotation_def orthonormal_columns_def det3_def)
  have d0: "a * (e * k - f * h) + d * (h * c - b * k) + g * (b * f - e * c) = 1"
    using dt by (simp add: algebra_simps)
  have d1: "b * (f * g - d * k) + e * (k * a - c * g) + h * (c * d - f * a) = 1"
    using dt by (simp add: algebra_simps)
  have d2: "c * (d * h - e * g) + f * (g * b - a * h) + k * (a * e - d * b) = 1"
    using dt by (simp add: algebra_simps)
  have o20: "c * a + f * d + k * g = 0" using o02 by (simp add: algebra_simps)
  show "a - (e * k - f * h) = 0" "d - (h * c - b * k) = 0" "g - (b * f - e * c) = 0"
    by (rule cross_column [OF n0 n1 n2 o12 d0])+
  show "b - (f * g - d * k) = 0" "e - (k * a - c * g) = 0" "h - (c * d - f * a) = 0"
    by (rule cross_column [OF n1 n2 n0 o20 d1])+
  show "c - (d * h - e * g) = 0" "f - (g * b - a * h) = 0" "k - (a * e - d * b) = 0"
    by (rule cross_column [OF n2 n0 n1 o01 d2])+
qed

text \<open>The rows are orthonormal as well.\<close>

lemma rotation_rows:
  fixes a b c d e f g h k :: real
  assumes "is_rotation (Matrix3d a b c d e f g h k)"
  shows "a * a + b * b + c * c - 1 = 0" "d * d + e * e + f * f - 1 = 0"
        "g * g + h * h + k * k - 1 = 0" "a * d + b * e + c * f = 0"
        "a * g + b * h + c * k = 0" "d * g + e * h + f * k = 0"
proof -
  note cf = rotation_cofactors [OF assms]
  from assms have dt: "a * (e * k - f * h) - b * (d * k - f * g) + c * (d * h - e * g) - 1 = 0"
    by (simp add: is_rotation_def det3_def)
  have "a * a + b * b + c * c - 1
        = a * (a - (e * k - f * h)) + b * (b - (f * g - d * k)) + c * (c - (d * h - e * g))
          + (a * (e * k - f * h) - b * (d * k - f * g) + c * (d * h - e * g) - 1)"
    by (simp add: algebra_simps)
  then show "a * a + b * b + c * c - 1 = 0" by (simp only: cf dt)
  have "d * d + e * e + f * f - 1
        = d * (d - (h * c - b * k)) + e * (e - (k * a - c * g)) + f * (f - (g * b - a * h))
          + (a * (e * k - f * h) - b * (d * k - f * g) + c * (d * h - e * g) - 1)"
    by (simp add: algebra_simps)
  then show "d * d + e * e + f * f - 1 = 0" by (simp only: cf dt)
  have "g * g + h * h + k * k - 1
        = g * (g - (b * f - e * c)) + h * (h - (c * d - f * a)) + k * (k - (a * e - d * b))
          + (a * (e * k - f * h) - b * (d * k - f * g) + c * (d * h - e * g) - 1)"
    by (simp add: algebra_simps)
  then show "g * g + h * h + k * k - 1 = 0" by (simp only: cf dt)
  have "a * d + b * e + c * f
        = d * (a - (e * k - f * h)) + e * (b - (f * g - d * k)) + f * (c - (d * h - e * g))"
    by (simp add: algebra_simps)
  then show "a * d + b * e + c * f = 0" by (simp only: cf)
  have "a * g + b * h + c * k
        = g * (a - (e * k - f * h)) + h * (b - (f * g - d * k)) + k * (c - (d * h - e * g))"
    by (simp add: algebra_simps)
  then show "a * g + b * h + c * k = 0" by (simp only: cf)
  have "d * g + e * h + f * k
        = g * (d - (h * c - b * k)) + h * (e - (k * a - c * g)) + k * (f - (g * b - a * h))"
    by (simp add: algebra_simps)
  then show "d * g + e * h + f * k = 0" by (simp only: cf)
qed

lemma rotation_columns:
  fixes a b c d e f g h k :: real
  assumes "is_rotation (Matrix3d a b c d e f g h k)"
  shows "a * a + d * d + g * g - 1 = 0" "b * b + e * e + h * h - 1 = 0"
        "c * c + f * f + k * k - 1 = 0" "a * b + d * e + g * h = 0"
        "a * c + d * f + g * k = 0" "b * c + e * f + h * k = 0"
  using assms by (simp_all add: is_rotation_def orthonormal_columns_def)

lemmas rotation_relations = rotation_columns rotation_rows rotation_cofactors

text \<open>
  The constructor from a matrix divides by twice one coefficient of the quaternion,
  the pivot. What makes the result right is that the symmetric 4x4 matrix of the ten
  products of two coefficients, read off the rotation matrix, has rank one: for each
  pivot, six identities of degree two, each a combination of the relations above.
\<close>

lemma pivot_trace:
  fixes a b c d e f g h k :: real
  assumes "is_rotation (Matrix3d a b c d e f g h k)"
  shows "(h - f) * (h - f) = (1 + a + e + k) * (1 + a - e - k)"
    and "(h - f) * (c - g) = (1 + a + e + k) * (b + d)"
    and "(h - f) * (d - b) = (1 + a + e + k) * (c + g)"
    and "(c - g) * (c - g) = (1 + a + e + k) * (1 - a + e - k)"
    and "(c - g) * (d - b) = (1 + a + e + k) * (f + h)"
    and "(d - b) * (d - b) = (1 + a + e + k) * (1 - a - e + k)"
proof -
  note rel = rotation_relations [OF assms]
  have "(h - f) * (h - f) - (1 + a + e + k) * (1 + a - e - k)
        = (b * b + e * e + h * h - 1) + (c * c + f * f + k * k - 1)
          - (a * a + b * b + c * c - 1) - 2 * (a - (e * k - f * h))"
    by (simp add: algebra_simps)
  also have "\<dots> = 0" by (simp only: rel)
  finally show "(h - f) * (h - f) = (1 + a + e + k) * (1 + a - e - k)" by simp
  have "(h - f) * (c - g) - (1 + a + e + k) * (b + d)
        = - (a * b + d * e + g * h) - (a * d + b * e + c * f)
          - (d - (h * c - b * k)) - (b - (f * g - d * k))"
    by (simp add: algebra_simps)
  also have "\<dots> = 0" by (simp only: rel)
  finally show "(h - f) * (c - g) = (1 + a + e + k) * (b + d)" by simp
  have "(h - f) * (d - b) - (1 + a + e + k) * (c + g)
        = - (a * c + d * f + g * k) - (a * g + b * h + c * k)
          - (g - (b * f - e * c)) - (c - (d * h - e * g))"
    by (simp add: algebra_simps)
  also have "\<dots> = 0" by (simp only: rel)
  finally show "(h - f) * (d - b) = (1 + a + e + k) * (c + g)" by simp
  have "(c - g) * (c - g) - (1 + a + e + k) * (1 - a + e - k)
        = (a * a + d * d + g * g - 1) + (c * c + f * f + k * k - 1)
          - (d * d + e * e + f * f - 1) - 2 * (e - (k * a - c * g))"
    by (simp add: algebra_simps)
  also have "\<dots> = 0" by (simp only: rel)
  finally show "(c - g) * (c - g) = (1 + a + e + k) * (1 - a + e - k)" by simp
  have "(c - g) * (d - b) - (1 + a + e + k) * (f + h)
        = - (b * c + e * f + h * k) - (d * g + e * h + f * k)
          - (h - (c * d - f * a)) - (f - (g * b - a * h))"
    by (simp add: algebra_simps)
  also have "\<dots> = 0" by (simp only: rel)
  finally show "(c - g) * (d - b) = (1 + a + e + k) * (f + h)" by simp
  have "(d - b) * (d - b) - (1 + a + e + k) * (1 - a - e + k)
        = - (c * c + f * f + k * k - 1) + (a * a + b * b + c * c - 1)
          + (d * d + e * e + f * f - 1) - 2 * (k - (a * e - d * b))"
    by (simp add: algebra_simps)
  also have "\<dots> = 0" by (simp only: rel)
  finally show "(d - b) * (d - b) = (1 + a + e + k) * (1 - a - e + k)" by simp
qed

lemma pivot_first:
  fixes a b c d e f g h k :: real
  assumes "is_rotation (Matrix3d a b c d e f g h k)"
  shows "(h - f) * (h - f) = (1 + a - e - k) * (1 + a + e + k)"
    and "(h - f) * (b + d) = (1 + a - e - k) * (c - g)"
    and "(h - f) * (c + g) = (1 + a - e - k) * (d - b)"
    and "(b + d) * (b + d) = (1 + a - e - k) * (1 - a + e - k)"
    and "(b + d) * (c + g) = (1 + a - e - k) * (f + h)"
    and "(c + g) * (c + g) = (1 + a - e - k) * (1 - a - e + k)"
proof -
  note rel = rotation_relations [OF assms]
  have "(h - f) * (h - f) - (1 + a - e - k) * (1 + a + e + k)
        = (b * b + e * e + h * h - 1) + (c * c + f * f + k * k - 1)
          - (a * a + b * b + c * c - 1) - 2 * (a - (e * k - f * h))"
    by (simp add: algebra_simps)
  also have "\<dots> = 0" by (simp only: rel)
  finally show "(h - f) * (h - f) = (1 + a - e - k) * (1 + a + e + k)" by simp
  have "(h - f) * (b + d) - (1 + a - e - k) * (c - g)
        = - (a * c + d * f + g * k) + (a * g + b * h + c * k)
          + (g - (b * f - e * c)) - (c - (d * h - e * g))"
    by (simp add: algebra_simps)
  also have "\<dots> = 0" by (simp only: rel)
  finally show "(h - f) * (b + d) = (1 + a - e - k) * (c - g)" by simp
  have "(h - f) * (c + g) - (1 + a - e - k) * (d - b)
        = (a * b + d * e + g * h) - (a * d + b * e + c * f)
          - (d - (h * c - b * k)) + (b - (f * g - d * k))"
    by (simp add: algebra_simps)
  also have "\<dots> = 0" by (simp only: rel)
  finally show "(h - f) * (c + g) = (1 + a - e - k) * (d - b)" by simp
  have "(b + d) * (b + d) - (1 + a - e - k) * (1 - a + e - k)
        = - (c * c + f * f + k * k - 1) + (a * a + b * b + c * c - 1)
          + (d * d + e * e + f * f - 1) + 2 * (k - (a * e - d * b))"
    by (simp add: algebra_simps)
  also have "\<dots> = 0" by (simp only: rel)
  finally show "(b + d) * (b + d) = (1 + a - e - k) * (1 - a + e - k)" by simp
  have "(b + d) * (c + g) - (1 + a - e - k) * (f + h)
        = (b * c + e * f + h * k) + (d * g + e * h + f * k)
          - (h - (c * d - f * a)) - (f - (g * b - a * h))"
    by (simp add: algebra_simps)
  also have "\<dots> = 0" by (simp only: rel)
  finally show "(b + d) * (c + g) = (1 + a - e - k) * (f + h)" by simp
  have "(c + g) * (c + g) - (1 + a - e - k) * (1 - a - e + k)
        = (a * a + d * d + g * g - 1) + (c * c + f * f + k * k - 1)
          - (d * d + e * e + f * f - 1) + 2 * (e - (k * a - c * g))"
    by (simp add: algebra_simps)
  also have "\<dots> = 0" by (simp only: rel)
  finally show "(c + g) * (c + g) = (1 + a - e - k) * (1 - a - e + k)" by simp
qed

lemma pivot_second:
  fixes a b c d e f g h k :: real
  assumes "is_rotation (Matrix3d a b c d e f g h k)"
  shows "(c - g) * (c - g) = (1 - a + e - k) * (1 + a + e + k)"
    and "(c - g) * (b + d) = (1 - a + e - k) * (h - f)"
    and "(c - g) * (f + h) = (1 - a + e - k) * (d - b)"
    and "(b + d) * (b + d) = (1 - a + e - k) * (1 + a - e - k)"
    and "(b + d) * (f + h) = (1 - a + e - k) * (c + g)"
    and "(f + h) * (f + h) = (1 - a + e - k) * (1 - a - e + k)"
proof -
  note rel = rotation_relations [OF assms]
  have "(c - g) * (c - g) - (1 - a + e - k) * (1 + a + e + k)
        = (a * a + d * d + g * g - 1) + (c * c + f * f + k * k - 1)
          - (d * d + e * e + f * f - 1) - 2 * (e - (k * a - c * g))"
    by (simp add: algebra_simps)
  also have "\<dots> = 0" by (simp only: rel)
  finally show "(c - g) * (c - g) = (1 - a + e - k) * (1 + a + e + k)" by simp
  have "(c - g) * (b + d) - (1 - a + e - k) * (h - f)
        = (b * c + e * f + h * k) - (d * g + e * h + f * k)
          - (h - (c * d - f * a)) + (f - (g * b - a * h))"
    by (simp add: algebra_simps)
  also have "\<dots> = 0" by (simp only: rel)
  finally show "(c - g) * (b + d) = (1 - a + e - k) * (h - f)" by simp
  have "(c - g) * (f + h) - (1 - a + e - k) * (d - b)
        = - (a * b + d * e + g * h) + (a * d + b * e + c * f)
          - (d - (h * c - b * k)) + (b - (f * g - d * k))"
    by (simp add: algebra_simps)
  also have "\<dots> = 0" by (simp only: rel)
  finally show "(c - g) * (f + h) = (1 - a + e - k) * (d - b)" by simp
  have "(b + d) * (b + d) - (1 - a + e - k) * (1 + a - e - k)
        = - (c * c + f * f + k * k - 1) + (a * a + b * b + c * c - 1)
          + (d * d + e * e + f * f - 1) + 2 * (k - (a * e - d * b))"
    by (simp add: algebra_simps)
  also have "\<dots> = 0" by (simp only: rel)
  finally show "(b + d) * (b + d) = (1 - a + e - k) * (1 + a - e - k)" by simp
  have "(b + d) * (f + h) - (1 - a + e - k) * (c + g)
        = (a * c + d * f + g * k) + (a * g + b * h + c * k)
          - (g - (b * f - e * c)) - (c - (d * h - e * g))"
    by (simp add: algebra_simps)
  also have "\<dots> = 0" by (simp only: rel)
  finally show "(b + d) * (f + h) = (1 - a + e - k) * (c + g)" by simp
  have "(f + h) * (f + h) - (1 - a + e - k) * (1 - a - e + k)
        = (b * b + e * e + h * h - 1) + (c * c + f * f + k * k - 1)
          - (a * a + b * b + c * c - 1) + 2 * (a - (e * k - f * h))"
    by (simp add: algebra_simps)
  also have "\<dots> = 0" by (simp only: rel)
  finally show "(f + h) * (f + h) = (1 - a + e - k) * (1 - a - e + k)" by simp
qed

lemma pivot_third:
  fixes a b c d e f g h k :: real
  assumes "is_rotation (Matrix3d a b c d e f g h k)"
  shows "(d - b) * (d - b) = (1 - a - e + k) * (1 + a + e + k)"
    and "(d - b) * (c + g) = (1 - a - e + k) * (h - f)"
    and "(d - b) * (f + h) = (1 - a - e + k) * (c - g)"
    and "(c + g) * (c + g) = (1 - a - e + k) * (1 + a - e - k)"
    and "(c + g) * (f + h) = (1 - a - e + k) * (b + d)"
    and "(f + h) * (f + h) = (1 - a - e + k) * (1 - a + e - k)"
proof -
  note rel = rotation_relations [OF assms]
  have "(d - b) * (d - b) - (1 - a - e + k) * (1 + a + e + k)
        = - (c * c + f * f + k * k - 1) + (a * a + b * b + c * c - 1)
          + (d * d + e * e + f * f - 1) - 2 * (k - (a * e - d * b))"
    by (simp add: algebra_simps)
  also have "\<dots> = 0" by (simp only: rel)
  finally show "(d - b) * (d - b) = (1 - a - e + k) * (1 + a + e + k)" by simp
  have "(d - b) * (c + g) - (1 - a - e + k) * (h - f)
        = - (b * c + e * f + h * k) + (d * g + e * h + f * k)
          - (h - (c * d - f * a)) + (f - (g * b - a * h))"
    by (simp add: algebra_simps)
  also have "\<dots> = 0" by (simp only: rel)
  finally show "(d - b) * (c + g) = (1 - a - e + k) * (h - f)" by simp
  have "(d - b) * (f + h) - (1 - a - e + k) * (c - g)
        = (a * c + d * f + g * k) - (a * g + b * h + c * k)
          + (g - (b * f - e * c)) - (c - (d * h - e * g))"
    by (simp add: algebra_simps)
  also have "\<dots> = 0" by (simp only: rel)
  finally show "(d - b) * (f + h) = (1 - a - e + k) * (c - g)" by simp
  have "(c + g) * (c + g) - (1 - a - e + k) * (1 + a - e - k)
        = (a * a + d * d + g * g - 1) + (c * c + f * f + k * k - 1)
          - (d * d + e * e + f * f - 1) + 2 * (e - (k * a - c * g))"
    by (simp add: algebra_simps)
  also have "\<dots> = 0" by (simp only: rel)
  finally show "(c + g) * (c + g) = (1 - a - e + k) * (1 + a - e - k)" by simp
  have "(c + g) * (f + h) - (1 - a - e + k) * (b + d)
        = (a * b + d * e + g * h) + (a * d + b * e + c * f)
          - (d - (h * c - b * k)) - (b - (f * g - d * k))"
    by (simp add: algebra_simps)
  also have "\<dots> = 0" by (simp only: rel)
  finally show "(c + g) * (f + h) = (1 - a - e + k) * (b + d)" by simp
  have "(f + h) * (f + h) - (1 - a - e + k) * (1 - a + e - k)
        = (b * b + e * e + h * h - 1) + (c * c + f * f + k * k - 1)
          - (a * a + b * b + c * c - 1) + 2 * (a - (e * k - f * h))"
    by (simp add: algebra_simps)
  also have "\<dots> = 0" by (simp only: rel)
  finally show "(f + h) * (f + h) = (1 - a - e + k) * (1 - a + e - k)" by simp
qed

lemma pivot_products:
  fixes D N1 N2 N3 K1 K2 K3 K12 K13 K23 :: real
  assumes D: "D > 0"
    and s1: "N1 * N1 = D * K1" and s2: "N2 * N2 = D * K2" and s3: "N3 * N3 = D * K3"
    and m12: "N1 * N2 = D * K12" and m13: "N1 * N3 = D * K13" and m23: "N2 * N3 = D * K23"
  shows "(0.5 * sqrt D) * (0.5 * sqrt D) = D / 4"
    and "(0.5 * sqrt D) * (N1 * (0.5 / sqrt D)) = N1 / 4"
    and "(0.5 * sqrt D) * (N2 * (0.5 / sqrt D)) = N2 / 4"
    and "(0.5 * sqrt D) * (N3 * (0.5 / sqrt D)) = N3 / 4"
    and "(N1 * (0.5 / sqrt D)) * (N1 * (0.5 / sqrt D)) = K1 / 4"
    and "(N2 * (0.5 / sqrt D)) * (N2 * (0.5 / sqrt D)) = K2 / 4"
    and "(N3 * (0.5 / sqrt D)) * (N3 * (0.5 / sqrt D)) = K3 / 4"
    and "(N1 * (0.5 / sqrt D)) * (N2 * (0.5 / sqrt D)) = K12 / 4"
    and "(N1 * (0.5 / sqrt D)) * (N3 * (0.5 / sqrt D)) = K13 / 4"
    and "(N2 * (0.5 / sqrt D)) * (N3 * (0.5 / sqrt D)) = K23 / 4"
proof -
  have sq: "sqrt D * sqrt D = D" and nz: "sqrt D \<noteq> 0" and nzD: "D \<noteq> 0"
    using D by simp_all
  have two: "(M * (0.5 / sqrt D)) * (N * (0.5 / sqrt D)) = (M * N) / (4 * D)" for M N :: real
  proof -
    have "(M * (0.5 / sqrt D)) * (N * (0.5 / sqrt D)) = (M * N) / (4 * (sqrt D * sqrt D))"
      using nz by (simp add: field_simps)
    then show ?thesis by (simp only: sq)
  qed
  have quot: "(D * K) / (4 * D) = K / 4" for K :: real
    using nzD by simp
  show "(0.5 * sqrt D) * (0.5 * sqrt D) = D / 4"
  proof -
    have "(0.5 * sqrt D) * (0.5 * sqrt D) = (sqrt D * sqrt D) / 4" by simp
    then show ?thesis by (simp only: sq)
  qed
  show "(0.5 * sqrt D) * (N1 * (0.5 / sqrt D)) = N1 / 4"
    and "(0.5 * sqrt D) * (N2 * (0.5 / sqrt D)) = N2 / 4"
    and "(0.5 * sqrt D) * (N3 * (0.5 / sqrt D)) = N3 / 4"
    using nz by simp_all
  show "(N1 * (0.5 / sqrt D)) * (N1 * (0.5 / sqrt D)) = K1 / 4"
    by (simp only: two s1 quot)
  show "(N2 * (0.5 / sqrt D)) * (N2 * (0.5 / sqrt D)) = K2 / 4"
    by (simp only: two s2 quot)
  show "(N3 * (0.5 / sqrt D)) * (N3 * (0.5 / sqrt D)) = K3 / 4"
    by (simp only: two s3 quot)
  show "(N1 * (0.5 / sqrt D)) * (N2 * (0.5 / sqrt D)) = K12 / 4"
    by (simp only: two m12 quot)
  show "(N1 * (0.5 / sqrt D)) * (N3 * (0.5 / sqrt D)) = K13 / 4"
    by (simp only: two m13 quot)
  show "(N2 * (0.5 / sqrt D)) * (N3 * (0.5 / sqrt D)) = K23 / 4"
    by (simp only: two m23 quot)
qed

text \<open>
  \<open>toRotationMatrix\<close> is linear in the ten products: a quaternion whose products
  are the ones read off a matrix is a unit quaternion and gives that matrix back.
\<close>

lemma toRotationMatrix_from_products:
  fixes w x y z a b c d e f g h k :: real
  assumes ww: "w * w = (1 + a + e + k) / 4" and xx: "x * x = (1 + a - e - k) / 4"
    and yy: "y * y = (1 - a + e - k) / 4" and zz: "z * z = (1 - a - e + k) / 4"
    and wx: "w * x = (h - f) / 4" and wy: "w * y = (c - g) / 4" and wz: "w * z = (d - b) / 4"
    and xy: "x * y = (b + d) / 4" and xz: "x * z = (c + g) / 4" and yz: "y * z = (f + h) / 4"
  shows "toRotationMatrix (Quaterniond w x y z) = Matrix3d a b c d e f g h k"
    and "quat_squaredNorm (Quaterniond w x y z) = 1"
proof -
  have xw: "x * w = (h - f) / 4" and yw: "y * w = (c - g) / 4" and zw: "z * w = (d - b) / 4"
    and yx: "y * x = (b + d) / 4" and zx: "z * x = (c + g) / 4" and zy: "z * y = (f + h) / 4"
    using wx wy wz xy xz yz by (simp_all add: mult.commute)
  show "toRotationMatrix (Quaterniond w x y z) = Matrix3d a b c d e f g h k"
    apply (simp add: toRotationMatrix_def Let_def mult.assoc ww xx yy zz xw yw zw yx zx zy)
    apply (simp add: field_simps)
    done
  show "quat_squaredNorm (Quaterniond w x y z) = 1"
    by (simp add: quat_squaredNorm_def ww xx yy zz field_simps)
qed

subsection \<open>The constructor from a matrix, branch by branch\<close>

lemma Quaterniond_of_matrix_trace:
  assumes "a + e + k > 0"
  shows "Quaterniond_of_matrix (Matrix3d a b c d e f g h k) =
         Quaterniond (0.5 * sqrt (1 + a + e + k))
           ((h - f) * (0.5 / sqrt (1 + a + e + k)))
           ((c - g) * (0.5 / sqrt (1 + a + e + k)))
           ((d - b) * (0.5 / sqrt (1 + a + e + k)))"
  using assms by (simp add: Quaterniond_of_matrix_def Let_def)

lemma Quaterniond_of_matrix_first:
  assumes "\<not> a + e + k > 0" "\<not> e > a" "\<not> k > a"
  shows "Quaterniond_of_matrix (Matrix3d a b c d e f g h k) =
         Quaterniond ((h - f) * (0.5 / sqrt (a - e - k + 1)))
           (0.5 * sqrt (a - e - k + 1))
           ((d + b) * (0.5 / sqrt (a - e - k + 1)))
           ((g + c) * (0.5 / sqrt (a - e - k + 1)))"
  using assms by (simp add: Quaterniond_of_matrix_def Let_def coeff_def set_coeff_def)

lemma Quaterniond_of_matrix_second:
  assumes "\<not> a + e + k > 0" "e > a" "\<not> k > e"
  shows "Quaterniond_of_matrix (Matrix3d a b c d e f g h k) =
         Quaterniond ((c - g) * (0.5 / sqrt (e - k - a + 1)))
           ((b + d) * (0.5 / sqrt (e - k - a + 1)))
           (0.5 * sqrt (e - k - a + 1))
           ((h + f) * (0.5 / sqrt (e - k - a + 1)))"
  using assms by (simp add: Quaterniond_of_matrix_def Let_def coeff_def set_coeff_def)

lemma Quaterniond_of_matrix_third:
  assumes "\<not> a + e + k > 0" "k > a" "k > e"
  shows "Quaterniond_of_matrix (Matrix3d a b c d e f g h k) =
         Quaterniond ((d - b) * (0.5 / sqrt (k - a - e + 1)))
           ((c + g) * (0.5 / sqrt (k - a - e + 1)))
           ((f + h) * (0.5 / sqrt (k - a - e + 1)))
           (0.5 * sqrt (k - a - e + 1))"
  using assms by (simp add: Quaterniond_of_matrix_def Let_def coeff_def set_coeff_def)

lemma branch_cases:
  fixes a e k :: real
  obtains (trace) "a + e + k > 0"
    | (first) "\<not> a + e + k > 0" "\<not> e > a" "\<not> k > a"
    | (second) "\<not> a + e + k > 0" "e > a" "\<not> k > e"
    | (third) "\<not> a + e + k > 0" "k > a" "k > e"
  by linarith

text \<open>
  In every branch the argument of the square root is positive, at least 1 outside
  the trace branch, for any matrix at all: the constructor neither divides by zero
  nor yields the zero quaternion.
\<close>

lemma sum_four_squares_pos:
  fixes w x y z :: real
  assumes "w \<noteq> 0 \<or> x \<noteq> 0 \<or> y \<noteq> 0 \<or> z \<noteq> 0"
  shows "0 < x * x + y * y + z * z + w * w"
proof -
  have nn: "w * w \<ge> 0" "x * x \<ge> 0" "y * y \<ge> 0" "z * z \<ge> 0" by simp_all
  from assms have "w * w > 0 \<or> x * x > 0 \<or> y * y > 0 \<or> z * z > 0"
    by (simp add: zero_less_mult_iff) linarith
  with nn show ?thesis by linarith
qed

lemma Quaterniond_of_matrix_nonzero: "quat_squaredNorm (Quaterniond_of_matrix R) > 0"
proof -
  obtain a b c d e f g h k where R: "R = Matrix3d a b c d e f g h k"
    by (cases R) blast
  have piv: "0.5 * sqrt D \<noteq> 0" if "D > 0" for D :: real
    using that by simp
  show ?thesis
  proof (cases a e k rule: branch_cases)
    case trace
    then have D: "1 + a + e + k > 0" by linarith
    show ?thesis
      unfolding R Quaterniond_of_matrix_trace [OF trace] quat_squaredNorm_def Quaterniond.sel
      by (rule sum_four_squares_pos) (simp only: piv [OF D] simp_thms)
  next
    case first
    then have D: "a - e - k + 1 > 0" by linarith
    show ?thesis
      unfolding R Quaterniond_of_matrix_first [OF first] quat_squaredNorm_def Quaterniond.sel
      by (rule sum_four_squares_pos) (simp only: piv [OF D] simp_thms)
  next
    case second
    then have D: "e - k - a + 1 > 0" by linarith
    show ?thesis
      unfolding R Quaterniond_of_matrix_second [OF second] quat_squaredNorm_def Quaterniond.sel
      by (rule sum_four_squares_pos) (simp only: piv [OF D] simp_thms)
  next
    case third
    then have D: "k - a - e + 1 > 0" by linarith
    show ?thesis
      unfolding R Quaterniond_of_matrix_third [OF third] quat_squaredNorm_def Quaterniond.sel
      by (rule sum_four_squares_pos) (simp only: piv [OF D] simp_thms)
  qed
qed

subsection \<open>A rotation matrix survives the round trip through a quaternion\<close>

lemma roundtrip_trace:
  fixes a b c d e f g h k :: real
  assumes rot: "is_rotation (Matrix3d a b c d e f g h k)" and br: "a + e + k > 0"
  shows "toRotationMatrix (Quaterniond_of_matrix (Matrix3d a b c d e f g h k))
           = Matrix3d a b c d e f g h k"
    and "quat_squaredNorm (Quaterniond_of_matrix (Matrix3d a b c d e f g h k)) = 1"
proof -
  have D: "1 + a + e + k > 0" using br by linarith
  note pv = pivot_trace [OF rot]
  note pp = pivot_products [OF D pv(1) pv(4) pv(6) pv(2) pv(3) pv(5)]
  note Q = Quaterniond_of_matrix_trace [OF br, of b c d f g h]
  note fin = toRotationMatrix_from_products
    [OF pp(1) pp(5) pp(6) pp(7) pp(2) pp(3) pp(4) pp(8) pp(9) pp(10)]
  show "toRotationMatrix (Quaterniond_of_matrix (Matrix3d a b c d e f g h k))
           = Matrix3d a b c d e f g h k"
    by (simp only: Q fin)
  show "quat_squaredNorm (Quaterniond_of_matrix (Matrix3d a b c d e f g h k)) = 1"
    by (simp only: Q fin)
qed

lemma roundtrip_first:
  fixes a b c d e f g h k :: real
  assumes rot: "is_rotation (Matrix3d a b c d e f g h k)"
    and br: "\<not> a + e + k > 0" "\<not> e > a" "\<not> k > a"
  shows "toRotationMatrix (Quaterniond_of_matrix (Matrix3d a b c d e f g h k))
           = Matrix3d a b c d e f g h k"
    and "quat_squaredNorm (Quaterniond_of_matrix (Matrix3d a b c d e f g h k)) = 1"
proof -
  have D: "1 + a - e - k > 0" using br by linarith
  have D_eq: "a - e - k + 1 = 1 + a - e - k" by simp
  note pv = pivot_first [OF rot]
  note pp = pivot_products [OF D pv(1) pv(4) pv(6) pv(2) pv(3) pv(5)]
  have Q: "Quaterniond_of_matrix (Matrix3d a b c d e f g h k) =
         Quaterniond ((h - f) * (0.5 / sqrt (1 + a - e - k)))
           (0.5 * sqrt (1 + a - e - k))
           ((b + d) * (0.5 / sqrt (1 + a - e - k)))
           ((c + g) * (0.5 / sqrt (1 + a - e - k)))"
    by (simp only: Quaterniond_of_matrix_first [OF br] D_eq
        add.commute [of d b] add.commute [of g c])
  have wx: "(h - f) * (0.5 / sqrt (1 + a - e - k)) * (0.5 * sqrt (1 + a - e - k)) = (h - f) / 4"
    using pp(2) by (simp only: mult.commute)
  note fin = toRotationMatrix_from_products
    [OF pp(5) pp(1) pp(6) pp(7) wx pp(8) pp(9) pp(3) pp(4) pp(10)]
  show "toRotationMatrix (Quaterniond_of_matrix (Matrix3d a b c d e f g h k))
           = Matrix3d a b c d e f g h k"
    by (simp only: Q fin)
  show "quat_squaredNorm (Quaterniond_of_matrix (Matrix3d a b c d e f g h k)) = 1"
    by (simp only: Q fin)
qed

lemma roundtrip_second:
  fixes a b c d e f g h k :: real
  assumes rot: "is_rotation (Matrix3d a b c d e f g h k)"
    and br: "\<not> a + e + k > 0" "e > a" "\<not> k > e"
  shows "toRotationMatrix (Quaterniond_of_matrix (Matrix3d a b c d e f g h k))
           = Matrix3d a b c d e f g h k"
    and "quat_squaredNorm (Quaterniond_of_matrix (Matrix3d a b c d e f g h k)) = 1"
proof -
  have D: "1 - a + e - k > 0" using br by linarith
  have D_eq: "e - k - a + 1 = 1 - a + e - k" by simp
  note pv = pivot_second [OF rot]
  note pp = pivot_products [OF D pv(1) pv(4) pv(6) pv(2) pv(3) pv(5)]
  have Q: "Quaterniond_of_matrix (Matrix3d a b c d e f g h k) =
         Quaterniond ((c - g) * (0.5 / sqrt (1 - a + e - k)))
           ((b + d) * (0.5 / sqrt (1 - a + e - k)))
           (0.5 * sqrt (1 - a + e - k))
           ((f + h) * (0.5 / sqrt (1 - a + e - k)))"
    by (simp only: Quaterniond_of_matrix_second [OF br] D_eq add.commute [of h f])
  have wy: "(c - g) * (0.5 / sqrt (1 - a + e - k)) * (0.5 * sqrt (1 - a + e - k)) = (c - g) / 4"
    and xy: "(b + d) * (0.5 / sqrt (1 - a + e - k)) * (0.5 * sqrt (1 - a + e - k)) = (b + d) / 4"
    using pp(2,3) by (simp_all only: mult.commute)
  note fin = toRotationMatrix_from_products
    [OF pp(5) pp(6) pp(1) pp(7) pp(8) wy pp(9) xy pp(10) pp(4)]
  show "toRotationMatrix (Quaterniond_of_matrix (Matrix3d a b c d e f g h k))
           = Matrix3d a b c d e f g h k"
    by (simp only: Q fin)
  show "quat_squaredNorm (Quaterniond_of_matrix (Matrix3d a b c d e f g h k)) = 1"
    by (simp only: Q fin)
qed

lemma roundtrip_third:
  fixes a b c d e f g h k :: real
  assumes rot: "is_rotation (Matrix3d a b c d e f g h k)"
    and br: "\<not> a + e + k > 0" "k > a" "k > e"
  shows "toRotationMatrix (Quaterniond_of_matrix (Matrix3d a b c d e f g h k))
           = Matrix3d a b c d e f g h k"
    and "quat_squaredNorm (Quaterniond_of_matrix (Matrix3d a b c d e f g h k)) = 1"
proof -
  have D: "1 - a - e + k > 0" using br by linarith
  have D_eq: "k - a - e + 1 = 1 - a - e + k" by simp
  note pv = pivot_third [OF rot]
  note pp = pivot_products [OF D pv(1) pv(4) pv(6) pv(2) pv(3) pv(5)]
  have Q: "Quaterniond_of_matrix (Matrix3d a b c d e f g h k) =
         Quaterniond ((d - b) * (0.5 / sqrt (1 - a - e + k)))
           ((c + g) * (0.5 / sqrt (1 - a - e + k)))
           ((f + h) * (0.5 / sqrt (1 - a - e + k)))
           (0.5 * sqrt (1 - a - e + k))"
    by (simp only: Quaterniond_of_matrix_third [OF br] D_eq)
  have wz: "(d - b) * (0.5 / sqrt (1 - a - e + k)) * (0.5 * sqrt (1 - a - e + k)) = (d - b) / 4"
    and xz: "(c + g) * (0.5 / sqrt (1 - a - e + k)) * (0.5 * sqrt (1 - a - e + k)) = (c + g) / 4"
    and yz: "(f + h) * (0.5 / sqrt (1 - a - e + k)) * (0.5 * sqrt (1 - a - e + k)) = (f + h) / 4"
    using pp(2,3,4) by (simp_all only: mult.commute)
  note fin = toRotationMatrix_from_products
    [OF pp(5) pp(6) pp(7) pp(1) pp(8) pp(9) wz pp(10) xz yz]
  show "toRotationMatrix (Quaterniond_of_matrix (Matrix3d a b c d e f g h k))
           = Matrix3d a b c d e f g h k"
    by (simp only: Q fin)
  show "quat_squaredNorm (Quaterniond_of_matrix (Matrix3d a b c d e f g h k)) = 1"
    by (simp only: Q fin)
qed

lemma rotation_roundtrip:
  assumes "is_rotation R"
  shows "toRotationMatrix (Quaterniond_of_matrix R) = R"
    and "quat_squaredNorm (Quaterniond_of_matrix R) = 1"
proof -
  obtain a b c d e f g h k where R: "R = Matrix3d a b c d e f g h k"
    by (cases R) blast
  have rot: "is_rotation (Matrix3d a b c d e f g h k)" using assms R by simp
  have "toRotationMatrix (Quaterniond_of_matrix R) = R
        \<and> quat_squaredNorm (Quaterniond_of_matrix R) = 1"
  proof (cases a e k rule: branch_cases)
    case trace
    show ?thesis unfolding R using roundtrip_trace [OF rot trace] by blast
  next
    case first
    show ?thesis unfolding R using roundtrip_first [OF rot first] by blast
  next
    case second
    show ?thesis unfolding R using roundtrip_second [OF rot second] by blast
  next
    case third
    show ?thesis unfolding R using roundtrip_third [OF rot third] by blast
  qed
  then show "toRotationMatrix (Quaterniond_of_matrix R) = R"
    and "quat_squaredNorm (Quaterniond_of_matrix R) = 1"
    by simp_all
qed

subsection \<open>The orientation update\<close>

lemma squaredNorm_nonneg: "squaredNorm v \<ge> 0"
  by (simp add: squaredNorm_def)

lemma norm3_nonzero_iff: "norm3 v \<noteq> 0 \<longleftrightarrow> squaredNorm v > 0"
  using squaredNorm_nonneg [of v] by (auto simp: norm3_def)

text \<open>Away from zero, \<open>normalized\<close> is the division by the norm, and its result has norm 1.\<close>

lemma normalized_direction:
  assumes "norm3 v \<noteq> 0"
  shows "normalized v = spec_direction v" and "squaredNorm (spec_direction v) = 1"
proof -
  have z: "squaredNorm v > 0" using assms by (simp add: norm3_nonzero_iff)
  show "normalized v = spec_direction v"
    using z by (simp add: normalized_def spec_direction_def norm3_def Let_def)
  have quot: "(r / sqrt (squaredNorm v)) * (r / sqrt (squaredNorm v)) = r * r / squaredNorm v" for r
    using z by simp
  have "squaredNorm (spec_direction v)
        = vec_x v * vec_x v / squaredNorm v + vec_y v * vec_y v / squaredNorm v
          + vec_z v * vec_z v / squaredNorm v"
    using z
    by (simp add: spec_direction_def norm3_def quot
        squaredNorm_def [of "Vector3d r1 r2 r3" for r1 r2 r3])
  also have "\<dots> = (vec_x v * vec_x v + vec_y v * vec_y v + vec_z v * vec_z v) / squaredNorm v"
    by (simp only: add_divide_distrib)
  also have "\<dots> = squaredNorm v / squaredNorm v" by (simp only: squaredNorm_def)
  also have "\<dots> = 1" using z by simp
  finally show "squaredNorm (spec_direction v) = 1" .
qed

lemma delta_q_nonzero:
  assumes "norm3 v \<noteq> 0"
  shows "delta_q v = spec_dq v"
  by (simp add: delta_q_def spec_dq_def Let_def normalized_direction(1) [OF assms])

lemma delta_q_zero: "delta_q (Vector3d 0 0 0) = Quaterniond 1 0 0 0"
  by (simp add: delta_q_def Let_def norm3_def squaredNorm_def normalized_def)

lemma half_angle_unit:
  fixes t x y z :: real
  assumes "x * x + y * y + z * z = 1"
  shows "(sin t * x) * (sin t * x) + (sin t * y) * (sin t * y) + (sin t * z) * (sin t * z)
         + cos t * cos t = 1"
proof -
  have "(sin t * x) * (sin t * x) + (sin t * y) * (sin t * y) + (sin t * z) * (sin t * z)
        + cos t * cos t = sin t * sin t * (x * x + y * y + z * z) + cos t * cos t"
    by (simp add: algebra_simps)
  also have "\<dots> = (sin t)\<^sup>2 + (cos t)\<^sup>2"
    by (simp only: assms mult_1_right power2_eq_square)
  finally show ?thesis by simp
qed

text \<open>The increment is a unit quaternion, for every angular delta.\<close>

lemma delta_q_unit: "quat_squaredNorm (delta_q v) = 1"
proof (cases "norm3 v = 0")
  case True
  then have "\<not> squaredNorm v > 0" using norm3_nonzero_iff [of v] by simp
  then show ?thesis
    using True by (simp add: delta_q_def Let_def normalized_def quat_squaredNorm_def)
next
  case False
  have u: "vec_x (spec_direction v) * vec_x (spec_direction v)
           + vec_y (spec_direction v) * vec_y (spec_direction v)
           + vec_z (spec_direction v) * vec_z (spec_direction v) = 1"
    using normalized_direction(2) [OF False] by (simp add: squaredNorm_def)
  show ?thesis
    unfolding delta_q_nonzero [OF False] spec_dq_def Let_def quat_squaredNorm_def Quaterniond.sel
    by (rule half_angle_unit [OF u])
qed

lemma composed_nonzero:
  "quat_squaredNorm (quat_mul (Quaterniond_of_matrix R) (delta_q v)) > 0"
  using Quaterniond_of_matrix_nonzero [of R]
  by (simp add: quat_mul_squaredNorm delta_q_unit)

lemma quat_normalized_spec_unit:
  assumes "quat_squaredNorm q > 0"
  shows "quat_normalized q = spec_unit q"
  using assms by (simp add: quat_normalized_def spec_unit_def quat_norm_def Let_def)

lemma UpdateOrientation_unfold:
  "UpdateOrientation v s =
     (toRotationMatrix (quat_normalized
          (quat_mul (Quaterniond_of_matrix (block33 (Activity.pose s))) (delta_q v))),
      block33 (Activity.pose s),
      s\<lparr>Activity.pose := (Activity.pose s)\<lparr>block33 :=
           toRotationMatrix (quat_normalized
             (quat_mul (Quaterniond_of_matrix (block33 (Activity.pose s))) (delta_q v)))\<rparr>\<rparr>)"
  by (simp add: UpdateOrientation_def Let_def)

lemma quat_mul_identity [simp]: "quat_mul q (Quaterniond 1 0 0 0) = q"
  by (simp add: quat_mul_def)

lemma quat_normalized_of_unit:
  assumes "quat_squaredNorm q = 1"
  shows "quat_normalized q = q"
  using assms by (simp add: quat_normalized_def Let_def)

lemma is_rotation_identity3: "is_rotation identity3"
  by (simp add: is_rotation_def identity3_def det3_def orthonormal_columns_def)

text \<open>
  Claim C1. For an angular delta of nonzero magnitude \<open>m\<close>, with \<open>d\<close> the delta divided
  by \<open>m\<close>, \<open>UpdateOrientation\<close> computes what the specification words: the increment
  is \<open>dq = (cos(m/2), sin(m/2)\<cdot>d)\<close>, the new orientation is the matrix of
  \<open>q_old \<cdot> dq\<close> (the increment on the right) divided by its norm, that matrix is written
  into the rotation block of the pose and returned as \<open>R_curr\<close>, the block as it was
  before the call is returned as \<open>R_prev\<close>, and no other member changes. The direction
  \<open>d\<close>, the increment and the renormalised product have norm 1.
\<close>

theorem UpdateOrientation_nonzero_delta:
  assumes "norm3 angular_delta \<noteq> 0"
  shows "UpdateOrientation angular_delta s =
           (spec_update_orientation angular_delta (block33 (Activity.pose s)),
            block33 (Activity.pose s),
            s\<lparr>Activity.pose := (Activity.pose s)\<lparr>block33 :=
                 spec_update_orientation angular_delta (block33 (Activity.pose s))\<rparr>\<rparr>)
         \<and> norm3 (spec_direction angular_delta) = 1
         \<and> quat_norm (spec_dq angular_delta) = 1
         \<and> quat_norm (spec_unit (quat_mul (Quaterniond_of_matrix (block33 (Activity.pose s)))
                                   (spec_dq angular_delta))) = 1"
proof -
  let ?q = "quat_mul (Quaterniond_of_matrix (block33 (Activity.pose s))) (spec_dq angular_delta)"
  have dq: "delta_q angular_delta = spec_dq angular_delta"
    by (rule delta_q_nonzero [OF assms])
  have pos: "quat_squaredNorm ?q > 0"
    using composed_nonzero [of "block33 (Activity.pose s)" angular_delta] by (simp only: dq)
  have unit: "quat_normalized ?q = spec_unit ?q"
    by (rule quat_normalized_spec_unit [OF pos])
  have "UpdateOrientation angular_delta s =
           (spec_update_orientation angular_delta (block33 (Activity.pose s)),
            block33 (Activity.pose s),
            s\<lparr>Activity.pose := (Activity.pose s)\<lparr>block33 :=
                 spec_update_orientation angular_delta (block33 (Activity.pose s))\<rparr>\<rparr>)"
    by (simp only: UpdateOrientation_unfold dq unit spec_update_orientation_def)
  moreover have "norm3 (spec_direction angular_delta) = 1"
    by (simp add: norm3_def normalized_direction(2) [OF assms])
  moreover have "quat_norm (spec_dq angular_delta) = 1"
    using delta_q_unit [of angular_delta] by (simp add: quat_norm_def dq)
  moreover have "quat_norm (spec_unit ?q) = 1"
    using quat_normalized_unit [OF pos] by (simp add: quat_norm_def unit)
  ultimately show ?thesis by simp
qed

text \<open>
  A half turn about the x axis, from the identity: the increment is \<open>(0, 1, 0, 0)\<close> and
  the new rotation is \<open>diag(1, -1, -1)\<close>.
\<close>

theorem UpdateOrientation_nonzero_delta_witness:
  "UpdateOrientation (Vector3d pi 0 0)
     (integrating_state identity3 (Vector3d 0 0 0) (Vector3d 0 0 0) [] [])
   = (Matrix3d 1 0 0 0 (- 1) 0 0 0 (- 1), identity3,
      integrating_state (Matrix3d 1 0 0 0 (- 1) 0 0 0 (- 1)) (Vector3d 0 0 0) (Vector3d 0 0 0) [] [])"
proof -
  have n: "norm3 (Vector3d pi 0 0) = pi"
    by (simp add: norm3_def squaredNorm_def)
  have d: "spec_direction (Vector3d pi 0 0) = Vector3d 1 0 0"
    by (simp add: spec_direction_def n)
  have dq: "spec_dq (Vector3d pi 0 0) = Quaterniond 0 1 0 0"
    by (simp add: spec_dq_def Let_def n d)
  have q: "Quaterniond_of_matrix identity3 = Quaterniond 1 0 0 0"
    by (simp add: Quaterniond_of_matrix_def identity3_def Let_def)
  have R: "spec_update_orientation (Vector3d pi 0 0) identity3 = Matrix3d 1 0 0 0 (- 1) 0 0 0 (- 1)"
    by (simp add: spec_update_orientation_def dq q quat_mul_def spec_unit_def quat_norm_def
        quat_squaredNorm_def toRotationMatrix_def Let_def)
  have nz: "norm3 (Vector3d pi 0 0) \<noteq> 0" by (simp add: n)
  show ?thesis
    using UpdateOrientation_nonzero_delta [OF nz,
        of "integrating_state identity3 (Vector3d 0 0 0) (Vector3d 0 0 0) [] []"]
    by (simp add: integrating_state_def pose_of_def R)
qed

subsection \<open>Every quotient and root of the orientation update is defined\<close>










text \<open>
  The test inside \<open>normalized\<close> is what defines the direction at zero: the quotient
  by the norm alone has no value there.
\<close>

lemma spec_direction_checked_zero: "spec_direction_checked (Vector3d 0 0 0) = None"
  by (simp add: spec_direction_checked_def norm3_checked_def checked_sqrt_def squaredNorm_def
      checked_quotient3_def checked_div_def)

lemma normalized_checked_zero: "normalized_checked (Vector3d 0 0 0) = Some (Vector3d 0 0 0)"
  by (simp add: normalized_checked_def squaredNorm_def)

text \<open>On a rotation matrix the zero delta changes nothing.\<close>

lemma UpdateOrientation_zero:
  assumes "is_rotation (block33 (Activity.pose s))"
  shows "UpdateOrientation (Vector3d 0 0 0) s
           = (block33 (Activity.pose s), block33 (Activity.pose s), s)"
  by (simp add: UpdateOrientation_unfold delta_q_zero
      quat_normalized_of_unit [OF rotation_roundtrip(2) [OF assms]]
      rotation_roundtrip(1) [OF assms])





text \<open>
  Claim C6. After every call of \<open>UpdateOrientation\<close> the rotation block of the pose has
  determinant 1 and orthonormal columns, and it is the matrix returned as \<open>R_curr\<close>.
  This holds for every angular delta, the zero one included, and for every matrix
  stored before the call, orthonormal or not: the quaternion of the stored matrix is
  never zero, the increment has norm 1, so their product is renormalised to norm 1.
\<close>

theorem UpdateOrientation_orthonormal:
  "is_rotation (block33 (Activity.pose (snd (snd (UpdateOrientation angular_delta s)))))
   \<and> fst (UpdateOrientation angular_delta s)
       = block33 (Activity.pose (snd (snd (UpdateOrientation angular_delta s))))"
proof -
  let ?q = "quat_mul (Quaterniond_of_matrix (block33 (Activity.pose s))) (delta_q angular_delta)"
  have "quat_squaredNorm (quat_normalized ?q) = 1"
    by (rule quat_normalized_unit [OF composed_nonzero])
  then have "is_rotation (toRotationMatrix (quat_normalized ?q))"
    by (rule toRotationMatrix_is_rotation)
  then show ?thesis by (simp add: UpdateOrientation_unfold)
qed

text \<open>From a stored block that is not a rotation, twice the identity.\<close>

theorem UpdateOrientation_orthonormal_witness:
  "is_rotation (block33 (Activity.pose (snd (snd (UpdateOrientation (Vector3d 0.1 (- 0.2) 0.3)
      (integrating_state (Matrix3d 2 0 0 0 2 0 0 0 2) (Vector3d 0 0 0) (Vector3d 0 0 0) [] []))))))"
  using UpdateOrientation_orthonormal [of "Vector3d 0.1 (- 0.2) 0.3"
      "integrating_state (Matrix3d 2 0 0 0 2 0 0 0 2) (Vector3d 0 0 0) (Vector3d 0 0 0) [] []"]
  by (rule conjunct1)

subsection \<open>One cycle of the integrating branch\<close>

lemma UpdateOrientation_buffers:
  assumes "UpdateOrientation v s = (R_curr, R_prev, s1)"
  shows "imu_data_buff s1 = imu_data_buff s" "odom_data_buff s1 = odom_data_buff s"
    "initialized s1 = initialized s" "init_time s1 = init_time s"
  using assms by (auto simp: UpdateOrientation_unfold)

text \<open>
  With two or more inertial samples the index pair \<open>(size - 1, 0)\<close> passes the guard
  of both delta routines, so the cycle reaches its end; the last statement reads the
  back of the auxiliary buffer, which must not be empty.
\<close>

lemma UpdatePose_integrating:
  assumes init: "initialized s"
    and imu: "2 \<le> length (imu_data_buff s)"
    and odom: "odom_data_buff s \<noteq> []"
  shows "\<exists>angular_delta R_curr R_prev s1 delta_t velocity_delta.
           GetAngularDelta s (length (imu_data_buff s) - 1) 0 = Some angular_delta
         \<and> UpdateOrientation angular_delta s = (R_curr, R_prev, s1)
         \<and> GetVelocityDelta s1 (length (imu_data_buff s) - 1) 0 R_curr R_prev
             = Some (delta_t, velocity_delta)
         \<and> UpdatePose SyncData s =
             Some (True, (UpdatePosition delta_t velocity_delta s1)
                           \<lparr>imu_data_buff := [last (imu_data_buff s)],
                            odom_data_buff := [last (odom_data_buff s)]\<rparr>)"
proof -
  let ?n = "length (imu_data_buff s) - 1"
  have guard: "\<not> (?n \<le> 0 \<or> length (imu_data_buff s) \<le> ?n)" using imu by simp
  obtain angular_delta where ad: "GetAngularDelta s ?n 0 = Some angular_delta"
    using guard by (simp add: GetAngularDelta_def Let_def)
  obtain R_curr R_prev s1 where uo: "UpdateOrientation angular_delta s = (R_curr, R_prev, s1)"
    by (cases "UpdateOrientation angular_delta s") blast
  note same = UpdateOrientation_buffers [OF uo]
  obtain delta_t velocity_delta
    where vd: "GetVelocityDelta s1 ?n 0 R_curr R_prev = Some (delta_t, velocity_delta)"
    using guard by (simp add: GetVelocityDelta_def Let_def same)
  have ne: "imu_data_buff s \<noteq> []" using imu by auto
  have "UpdatePose SyncData s =
          Some (True, (UpdatePosition delta_t velocity_delta s1)
                        \<lparr>imu_data_buff := [last (imu_data_buff s)],
                         odom_data_buff := [last (odom_data_buff s)]\<rparr>)"
    using init ne odom ad uo vd
    by (simp add: UpdatePose_def Let_def UpdatePosition_def same)
  with ad uo vd show ?thesis by blast
qed


text \<open>
  The claim on timestamps, as it was stated, fails: with the newer sample first in the buffer, so that
  \<open>t_curr = 0 < t_prev = 1\<close>, both delta routines return \<^verbatim>\<open>true\<close>, with a time step
  of \<open>-1\<close>, and the cycle is not skipped: \<open>UpdatePose\<close> returns \<^verbatim>\<open>true\<close>.
\<close>

theorem deltas_out_of_order_counterexample:
  "IMUData.time (imu_data_buff
       (integrating_state identity3 (Vector3d 0 0 0) (Vector3d 0 0 0)
          [imu_at 1 (Vector3d 0 0 2) (Vector3d 1 0 (- 9.81)),
           imu_at 0 (Vector3d 0 0 2) (Vector3d 1 0 (- 9.81))]
          [odom_at 0 (pose_of identity3 (Vector3d 0 0 0)) (Vector3d 0 0 0)]) ! 1)
     \<le> IMUData.time (imu_data_buff
       (integrating_state identity3 (Vector3d 0 0 0) (Vector3d 0 0 0)
          [imu_at 1 (Vector3d 0 0 2) (Vector3d 1 0 (- 9.81)),
           imu_at 0 (Vector3d 0 0 2) (Vector3d 1 0 (- 9.81))]
          [odom_at 0 (pose_of identity3 (Vector3d 0 0 0)) (Vector3d 0 0 0)]) ! 0)
   \<and> GetAngularDelta
       (integrating_state identity3 (Vector3d 0 0 0) (Vector3d 0 0 0)
          [imu_at 1 (Vector3d 0 0 2) (Vector3d 1 0 (- 9.81)),
           imu_at 0 (Vector3d 0 0 2) (Vector3d 1 0 (- 9.81))]
          [odom_at 0 (pose_of identity3 (Vector3d 0 0 0)) (Vector3d 0 0 0)]) 1 0
     = Some (Vector3d 0 0 (- 2))
   \<and> GetVelocityDelta
       (integrating_state identity3 (Vector3d 0 0 0) (Vector3d 0 0 0)
          [imu_at 1 (Vector3d 0 0 2) (Vector3d 1 0 (- 9.81)),
           imu_at 0 (Vector3d 0 0 2) (Vector3d 1 0 (- 9.81))]
          [odom_at 0 (pose_of identity3 (Vector3d 0 0 0)) (Vector3d 0 0 0)])
       1 0 identity3 identity3
     = Some (- 1, Vector3d (- 1) 0 0)
   \<and> (\<exists>s'. UpdatePose sync_invalid
       (integrating_state identity3 (Vector3d 0 0 0) (Vector3d 0 0 0)
          [imu_at 1 (Vector3d 0 0 2) (Vector3d 1 0 (- 9.81)),
           imu_at 0 (Vector3d 0 0 2) (Vector3d 1 0 (- 9.81))]
          [odom_at 0 (pose_of identity3 (Vector3d 0 0 0)) (Vector3d 0 0 0)])
     = Some (True, s'))"
proof -
  let ?s = "integrating_state identity3 (Vector3d 0 0 0) (Vector3d 0 0 0)
          [imu_at 1 (Vector3d 0 0 2) (Vector3d 1 0 (- 9.81)),
           imu_at 0 (Vector3d 0 0 2) (Vector3d 1 0 (- 9.81))]
          [odom_at 0 (pose_of identity3 (Vector3d 0 0 0)) (Vector3d 0 0 0)]"
  have order: "IMUData.time (imu_data_buff ?s ! 1) \<le> IMUData.time (imu_data_buff ?s ! 0)"
    by (simp add: integrating_state_def imu_at_def)
  have angular: "GetAngularDelta ?s 1 0 = Some (Vector3d 0 0 (- 2))"
    by (simp add: GetAngularDelta_def GetUnbiasedAngularVel_def Let_def
        integrating_state_def imu_at_def)
  have velocity: "GetVelocityDelta ?s 1 0 identity3 identity3 = Some (- 1, Vector3d (- 1) 0 0)"
    by (simp add: GetVelocityDelta_def GetUnbiasedLinearAcc_def Let_def
        integrating_state_def imu_at_def)
  have "initialized ?s" "2 \<le> length (imu_data_buff ?s)" "odom_data_buff ?s \<noteq> []"
    by (simp_all add: integrating_state_def)
  from UpdatePose_integrating [OF this, of sync_invalid]
  have "\<exists>s'. UpdatePose sync_invalid ?s = Some (True, s')" by blast
  with order angular velocity show ?thesis by blast
qed

subsection \<open>What a call of \<open>UpdatePose\<close> does to the flag and the buffers\<close>

lemma UpdatePose_initialized:
  assumes "initialized s" and "UpdatePose SyncData s = Some (r, s')"
  shows "initialized s'" "init_time s' = init_time s"
proof -
  have "initialized s' \<and> init_time s' = init_time s"
  proof (cases "GetAngularDelta s (length (imu_data_buff s) - 1) 0")
    case None
    with assms show ?thesis
      by (simp add: UpdatePose_def Let_def split: if_splits)
  next
    case (Some angular_delta)
    obtain R_curr R_prev s1 where uo: "UpdateOrientation angular_delta s = (R_curr, R_prev, s1)"
      by (cases "UpdateOrientation angular_delta s") blast
    note same = UpdateOrientation_buffers [OF uo]
    from assms Some uo same show ?thesis
      by (auto simp: UpdatePose_def Let_def UpdatePosition_def
          split: if_splits option.splits)
  qed
  then show "initialized s'" "init_time s' = init_time s" by simp_all
qed

lemma UpdatePose_odom_nonempty:
  assumes "UpdatePose SyncData s = Some (r, s')"
    and "initialized s \<longrightarrow> odom_data_buff s \<noteq> []"
  shows "initialized s' \<longrightarrow> odom_data_buff s' \<noteq> []"
proof (cases "initialized s")
  case False
  with assms(1) show ?thesis
    by (auto simp: UpdatePose_def Let_def split: if_splits prod.splits)
next
  case True
  show ?thesis
  proof (cases "GetAngularDelta s (length (imu_data_buff s) - 1) 0")
    case None
    with assms True show ?thesis
      by (simp add: UpdatePose_def Let_def split: if_splits)
  next
    case (Some angular_delta)
    obtain R_curr R_prev s1 where uo: "UpdateOrientation angular_delta s = (R_curr, R_prev, s1)"
      by (cases "UpdateOrientation angular_delta s") blast
    note same = UpdateOrientation_buffers [OF uo]
    from assms True Some uo same show ?thesis
      by (auto simp: UpdatePose_def Let_def UpdatePosition_def
          split: if_splits option.splits)
  qed
qed

lemma session_initialized:
  assumes "session SyncData s s'" and "initialized s"
  shows "initialized s' \<and> init_time s' = init_time s"
  using assms
proof (induction rule: session.induct)
  case session_start
  then show ?case by simp
next
  case (session_init s1 g ba bl)
  then show ?case by (simp add: Init_def)
next
  case (session_read s1 new_imu new_odom)
  then show ?case by (simp add: ReadData_def)
next
  case (session_update s1 r s2)
  then show ?case using UpdatePose_initialized [of s1 SyncData r s2] by simp
qed

lemma session_odom_nonempty:
  assumes "session SyncData s s'" and "initialized s \<longrightarrow> odom_data_buff s \<noteq> []"
  shows "initialized s' \<longrightarrow> odom_data_buff s' \<noteq> []"
  using assms
proof (induction rule: session.induct)
  case session_start
  then show ?case by simp
next
  case (session_init s1 g ba bl)
  then show ?case by (simp add: Init_def)
next
  case (session_read s1 new_imu new_odom)
  then show ?case by (simp add: ReadData_def)
next
  case (session_update s1 r s2)
  then show ?case using UpdatePose_odom_nonempty [of SyncData s1 r s2] by simp
qed

text \<open>The initialization branch, when it returns \<^verbatim>\<open>true\<close>.\<close>

lemma UpdatePose_initialization:
  assumes "\<not> initialized s" and "UpdatePose SyncData s = Some (True, s')"
  shows "initialized s'"
    and "Activity.pose s' = OdomData.pose (last (snd (snd
           (SyncData (odom_data_buff s) (odom_data_buff s)
              (IMUData.time (last (imu_data_buff s)))))))"
    and "Activity.vel s' = OdomData.vel (last (snd (snd
           (SyncData (odom_data_buff s) (odom_data_buff s)
              (IMUData.time (last (imu_data_buff s)))))))"
    and "init_time s' = OdomData.time (last (snd (snd
           (SyncData (odom_data_buff s) (odom_data_buff s)
              (IMUData.time (last (imu_data_buff s)))))))"
    and "odom_data_buff s' = [last (snd (snd
           (SyncData (odom_data_buff s) (odom_data_buff s)
              (IMUData.time (last (imu_data_buff s))))))]"
    and "imu_data_buff s' = [last (imu_data_buff s)]"
    and "\<not> sensor_inited s \<longrightarrow> fst (SyncData (odom_data_buff s) (odom_data_buff s)
              (IMUData.time (last (imu_data_buff s))))"
  using assms
  by (auto simp: UpdatePose_def Let_def split: if_splits prod.splits)

lemma UpdatePose_no_initialization:
  assumes "\<not> initialized s" and "UpdatePose SyncData s = Some (False, s')"
  shows "\<not> initialized s'" and "init_time s' = init_time s"
  using assms
  by (auto simp: UpdatePose_def Let_def split: if_splits prod.splits)

subsection \<open>The initialization flag\<close>

text \<open>
  Claim C8. A constructed activity is not initialized. Once \<open>initialized\<close> holds, it
  holds after any further calls of \<open>Init\<close>, \<open>ReadData\<close> and \<open>UpdatePose\<close>, and
  \<open>init_time\<close> keeps its value: the flag goes from false to true at most once and never
  back. A call of \<open>UpdatePose\<close> on an activity that is not initialized either returns
  \<^verbatim>\<open>false\<close> and leaves the flag and \<open>init_time\<close> alone, or returns \<^verbatim>\<open>true\<close>; then
  the flag is set, the pose, the velocity and \<open>init_time\<close> are those of the sample at
  the back of the buffer that \<open>SyncData\<close> filled, that sample is the one auxiliary
  sample kept, and \<open>SyncData\<close> had reported it valid if the \<^verbatim>\<open>static\<close> flag was not
  yet set.
\<close>

theorem initialized_once:
  "(constructed s0 \<longrightarrow> \<not> initialized s0)
   \<and> (session SyncData s s' \<and> initialized s \<longrightarrow> initialized s' \<and> init_time s' = init_time s)
   \<and> (\<not> initialized s \<and> UpdatePose SyncData s = Some (False, s1) \<longrightarrow>
        \<not> initialized s1 \<and> init_time s1 = init_time s)
   \<and> (\<not> initialized s \<and> UpdatePose SyncData s = Some (True, s1) \<longrightarrow>
        (let odom_data = last (snd (snd (SyncData (odom_data_buff s) (odom_data_buff s)
                                           (IMUData.time (last (imu_data_buff s))))))
         in initialized s1
          \<and> Activity.pose s1 = OdomData.pose odom_data
          \<and> Activity.vel s1 = OdomData.vel odom_data
          \<and> init_time s1 = OdomData.time odom_data
          \<and> odom_data_buff s1 = [odom_data]
          \<and> (\<not> sensor_inited s \<longrightarrow>
               fst (SyncData (odom_data_buff s) (odom_data_buff s)
                      (IMUData.time (last (imu_data_buff s)))))))"
proof -
  have c: "constructed s0 \<longrightarrow> \<not> initialized s0"
    by (simp add: constructed_def)
  show ?thesis
    unfolding Let_def
    using c session_initialized [of SyncData s s']
      UpdatePose_no_initialization [of s SyncData s1]
      UpdatePose_initialization [of s SyncData s1]
    by blast
qed

text \<open>A first call that initializes, with a synchroniser that reports success.\<close>

lemma UpdatePose_waiting_example:
  "UpdatePose sync_valid
     (waiting_state [imu_at 1 (Vector3d 0 0 0) (Vector3d 0 0 (- 9.81))]
        [odom_at 0.9 (pose_of identity3 (Vector3d 5 6 7)) (Vector3d 1 0 0)])
   = Some (True,
       (integrating_state identity3 (Vector3d 5 6 7) (Vector3d 1 0 0)
          [imu_at 1 (Vector3d 0 0 0) (Vector3d 0 0 (- 9.81))]
          [odom_at 0.9 (pose_of identity3 (Vector3d 5 6 7)) (Vector3d 1 0 0)])
       \<lparr>init_time := 0.9,
        unsynced_odom := [odom_at 0.9 (pose_of identity3 (Vector3d 5 6 7)) (Vector3d 1 0 0)]\<rparr>)"
  by (simp add: UpdatePose_def Let_def waiting_state_def sync_valid_def integrating_state_def
      odom_at_def)

text \<open>
  The first call initializes from the auxiliary sample stamped 0.9; after another
  sample is read the flag is still set and \<open>init_time\<close> is still 0.9.
\<close>

theorem initialized_once_witness:
  "initialized (ReadData [imu_at 1.1 (Vector3d 0 0 0) (Vector3d 0 0 (- 9.81))] []
       ((integrating_state identity3 (Vector3d 5 6 7) (Vector3d 1 0 0)
          [imu_at 1 (Vector3d 0 0 0) (Vector3d 0 0 (- 9.81))]
          [odom_at 0.9 (pose_of identity3 (Vector3d 5 6 7)) (Vector3d 1 0 0)])
        \<lparr>init_time := 0.9,
         unsynced_odom := [odom_at 0.9 (pose_of identity3 (Vector3d 5 6 7)) (Vector3d 1 0 0)]\<rparr>))
   \<and> init_time (ReadData [imu_at 1.1 (Vector3d 0 0 0) (Vector3d 0 0 (- 9.81))] []
       ((integrating_state identity3 (Vector3d 5 6 7) (Vector3d 1 0 0)
          [imu_at 1 (Vector3d 0 0 0) (Vector3d 0 0 (- 9.81))]
          [odom_at 0.9 (pose_of identity3 (Vector3d 5 6 7)) (Vector3d 1 0 0)])
        \<lparr>init_time := 0.9,
         unsynced_odom := [odom_at 0.9 (pose_of identity3 (Vector3d 5 6 7)) (Vector3d 1 0 0)]\<rparr>))
     = 0.9"
proof -
  let ?s0 = "waiting_state [imu_at 1 (Vector3d 0 0 0) (Vector3d 0 0 (- 9.81))]
        [odom_at 0.9 (pose_of identity3 (Vector3d 5 6 7)) (Vector3d 1 0 0)]"
  let ?s1 = "(integrating_state identity3 (Vector3d 5 6 7) (Vector3d 1 0 0)
          [imu_at 1 (Vector3d 0 0 0) (Vector3d 0 0 (- 9.81))]
          [odom_at 0.9 (pose_of identity3 (Vector3d 5 6 7)) (Vector3d 1 0 0)])
        \<lparr>init_time := 0.9,
         unsynced_odom := [odom_at 0.9 (pose_of identity3 (Vector3d 5 6 7)) (Vector3d 1 0 0)]\<rparr>"
  let ?s2 = "ReadData [imu_at 1.1 (Vector3d 0 0 0) (Vector3d 0 0 (- 9.81))] [] ?s1"
  have un: "\<not> initialized ?s0" by (simp add: waiting_state_def)
  have i1: "initialized ?s1 \<and> init_time ?s1 = 0.9"
    using initialized_once [of ?s0 sync_valid ?s0 ?s0 ?s1] un UpdatePose_waiting_example
    by (simp add: Let_def sync_valid_def waiting_state_def odom_at_def)
  have "session sync_valid ?s1 ?s2"
    by (rule session_read [OF session_start])
  with i1 show ?thesis
    using initialized_once [of ?s1 sync_valid ?s1 ?s2 ?s1] by simp
qed

subsection \<open>The data gate and the loop of \<open>Run\<close>\<close>

lemma HasData_iff:
  "HasData s \<longleftrightarrow> 2 \<le> length (imu_data_buff s) \<and> 2 \<le> length (odom_data_buff s)"
  by (auto simp: HasData_def)

lemma Run_loop_no_data: "\<not> HasData s \<Longrightarrow> Run_loop SyncData s = Some s"
  by (subst Run_loop.simps) simp

text \<open>
  Claim C9, as the code has it. \<open>HasData\<close> asks for two samples in the inertial
  buffer and for two in the auxiliary buffer. With fewer than two auxiliary samples
  the loop of \<open>Run\<close> makes no call of \<open>UpdatePose\<close> and the state stays as it is,
  however many inertial samples are buffered. With an initialized activity and two
  or more samples in each buffer, the loop runs exactly one cycle and returns its
  result.
\<close>

theorem cycle_gated_on_both_buffers:
  "(HasData s \<longleftrightarrow> 2 \<le> length (imu_data_buff s) \<and> 2 \<le> length (odom_data_buff s))
   \<and> (length (odom_data_buff s) < 2 \<longrightarrow>
        Run_loop SyncData s = Some s \<and> Run SyncData [] [] s = Some (True, s))
   \<and> (initialized s \<and> 2 \<le> length (imu_data_buff s) \<and> 2 \<le> length (odom_data_buff s) \<longrightarrow>
        (\<exists>s'. UpdatePose SyncData s = Some (True, s') \<and> Run_loop SyncData s = Some s'))"
proof -
  have gate: "HasData s \<longleftrightarrow> 2 \<le> length (imu_data_buff s) \<and> 2 \<le> length (odom_data_buff s)"
    by (rule HasData_iff)
  have idle: "Run_loop SyncData s = Some s \<and> Run SyncData [] [] s = Some (True, s)"
    if "length (odom_data_buff s) < 2"
  proof -
    have "\<not> HasData s" using that by (simp add: HasData_iff)
    then have "Run_loop SyncData s = Some s" by (rule Run_loop_no_data)
    moreover have "ReadData [] [] s = s" by (simp add: ReadData_def)
    ultimately show ?thesis by (simp add: Run_def)
  qed
  have once: "\<exists>s'. UpdatePose SyncData s = Some (True, s') \<and> Run_loop SyncData s = Some s'"
    if "initialized s" "2 \<le> length (imu_data_buff s)" "2 \<le> length (odom_data_buff s)"
  proof -
    have ne: "odom_data_buff s \<noteq> []" using that(3) by auto
    from UpdatePose_integrating [OF that(1,2) ne, of SyncData]
    obtain s1 delta_t velocity_delta where up: "UpdatePose SyncData s =
             Some (True, (UpdatePosition delta_t velocity_delta s1)
                           \<lparr>imu_data_buff := [last (imu_data_buff s)],
                            odom_data_buff := [last (odom_data_buff s)]\<rparr>)"
      by blast
    let ?s' = "(UpdatePosition delta_t velocity_delta s1)
                  \<lparr>imu_data_buff := [last (imu_data_buff s)],
                   odom_data_buff := [last (odom_data_buff s)]\<rparr>"
    have "\<not> HasData ?s'" by (simp add: HasData_def)
    then have stop: "Run_loop SyncData ?s' = Some ?s'" by (rule Run_loop_no_data)
    have "HasData s" using that by (simp add: HasData_iff)
    then have "Run_loop SyncData s = Some ?s'"
      by (subst Run_loop.simps) (simp add: up stop)
    with up show ?thesis by blast
  qed
  from gate idle once show ?thesis by blast
qed

text \<open>Two samples in each buffer: the data gate opens and one cycle runs.\<close>

theorem cycle_gated_on_both_buffers_witness:
  "HasData (integrating_state identity3 (Vector3d 0 0 0) (Vector3d 0 0 0)
       [imu_at 0 (Vector3d 0 0 0) (Vector3d 0 0 (- 9.81)),
        imu_at 0.1 (Vector3d 0 0 0) (Vector3d 0 0 (- 9.81))]
       [odom_at 0 (pose_of identity3 (Vector3d 0 0 0)) (Vector3d 0 0 0),
        odom_at 0.1 (pose_of identity3 (Vector3d 0 0 0)) (Vector3d 0 0 0)])
   \<and> (\<exists>s'. UpdatePose sync_invalid
       (integrating_state identity3 (Vector3d 0 0 0) (Vector3d 0 0 0)
         [imu_at 0 (Vector3d 0 0 0) (Vector3d 0 0 (- 9.81)),
          imu_at 0.1 (Vector3d 0 0 0) (Vector3d 0 0 (- 9.81))]
         [odom_at 0 (pose_of identity3 (Vector3d 0 0 0)) (Vector3d 0 0 0),
          odom_at 0.1 (pose_of identity3 (Vector3d 0 0 0)) (Vector3d 0 0 0)]) = Some (True, s')
     \<and> Run_loop sync_invalid
       (integrating_state identity3 (Vector3d 0 0 0) (Vector3d 0 0 0)
         [imu_at 0 (Vector3d 0 0 0) (Vector3d 0 0 (- 9.81)),
          imu_at 0.1 (Vector3d 0 0 0) (Vector3d 0 0 (- 9.81))]
         [odom_at 0 (pose_of identity3 (Vector3d 0 0 0)) (Vector3d 0 0 0),
          odom_at 0.1 (pose_of identity3 (Vector3d 0 0 0)) (Vector3d 0 0 0)]) = Some s')"
  using cycle_gated_on_both_buffers [of
      "integrating_state identity3 (Vector3d 0 0 0) (Vector3d 0 0 0)
         [imu_at 0 (Vector3d 0 0 0) (Vector3d 0 0 (- 9.81)),
          imu_at 0.1 (Vector3d 0 0 0) (Vector3d 0 0 (- 9.81))]
         [odom_at 0 (pose_of identity3 (Vector3d 0 0 0)) (Vector3d 0 0 0),
          odom_at 0.1 (pose_of identity3 (Vector3d 0 0 0)) (Vector3d 0 0 0)]" sync_invalid]
  by (simp add: integrating_state_def)

text \<open>
  The claim as it was stated fails: an initialized activity with two inertial samples
  and one auxiliary sample has no data for \<open>HasData\<close>, and \<open>Run\<close> returns with the
  state as it was.
\<close>

theorem cycle_without_auxiliary_counterexample:
  "initialized (integrating_state identity3 (Vector3d 0 0 0) (Vector3d 0 0 0)
       [imu_at 0 (Vector3d 0 0 0) (Vector3d 0 0 (- 9.81)),
        imu_at 0.1 (Vector3d 0 0 0) (Vector3d 0 0 (- 9.81))]
       [odom_at 0 (pose_of identity3 (Vector3d 0 0 0)) (Vector3d 0 0 0)])
   \<and> length (imu_data_buff (integrating_state identity3 (Vector3d 0 0 0) (Vector3d 0 0 0)
       [imu_at 0 (Vector3d 0 0 0) (Vector3d 0 0 (- 9.81)),
        imu_at 0.1 (Vector3d 0 0 0) (Vector3d 0 0 (- 9.81))]
       [odom_at 0 (pose_of identity3 (Vector3d 0 0 0)) (Vector3d 0 0 0)])) = 2
   \<and> \<not> HasData (integrating_state identity3 (Vector3d 0 0 0) (Vector3d 0 0 0)
       [imu_at 0 (Vector3d 0 0 0) (Vector3d 0 0 (- 9.81)),
        imu_at 0.1 (Vector3d 0 0 0) (Vector3d 0 0 (- 9.81))]
       [odom_at 0 (pose_of identity3 (Vector3d 0 0 0)) (Vector3d 0 0 0)])
   \<and> Run sync_invalid [] []
       (integrating_state identity3 (Vector3d 0 0 0) (Vector3d 0 0 0)
         [imu_at 0 (Vector3d 0 0 0) (Vector3d 0 0 (- 9.81)),
          imu_at 0.1 (Vector3d 0 0 0) (Vector3d 0 0 (- 9.81))]
         [odom_at 0 (pose_of identity3 (Vector3d 0 0 0)) (Vector3d 0 0 0)])
     = Some (True, integrating_state identity3 (Vector3d 0 0 0) (Vector3d 0 0 0)
         [imu_at 0 (Vector3d 0 0 0) (Vector3d 0 0 (- 9.81)),
          imu_at 0.1 (Vector3d 0 0 0) (Vector3d 0 0 (- 9.81))]
         [odom_at 0 (pose_of identity3 (Vector3d 0 0 0)) (Vector3d 0 0 0)])"
proof -
  let ?s = "integrating_state identity3 (Vector3d 0 0 0) (Vector3d 0 0 0)
       [imu_at 0 (Vector3d 0 0 0) (Vector3d 0 0 (- 9.81)),
        imu_at 0.1 (Vector3d 0 0 0) (Vector3d 0 0 (- 9.81))]
       [odom_at 0 (pose_of identity3 (Vector3d 0 0 0)) (Vector3d 0 0 0)]"
  have ini: "initialized ?s" and two: "length (imu_data_buff ?s) = 2"
    by (simp_all add: integrating_state_def)
  have nd: "\<not> HasData ?s" by (simp add: HasData_def integrating_state_def)
  have rd: "ReadData [] [] ?s = ?s" by (simp add: ReadData_def)
  have rl: "Run_loop sync_invalid ?s = Some ?s" by (rule Run_loop_no_data [OF nd])
  have "Run sync_invalid [] [] ?s = Some (True, ?s)"
    unfolding Run_def rd rl by simp
  with ini two nd show ?thesis by blast
qed

text \<open>
  Claim C10. In a session that started from an activity not yet initialized, once
  \<open>initialized\<close> holds and the inertial buffer has two or more samples, \<open>UpdatePose\<close>
  returns \<^verbatim>\<open>true\<close>: with the index pair \<open>(size - 1, 0)\<close> both delta routines succeed,
  the state committed is that of the orientation update followed by the position
  update, and each buffer is left with exactly its newest sample. (In such a session
  the auxiliary buffer is not empty once the flag is set, so its back can be read.)
\<close>

theorem integrating_cycle_commits:
  assumes "\<not> initialized s0" and "session SyncData s0 s"
    and "initialized s" and "2 \<le> length (imu_data_buff s)"
  shows "\<exists>angular_delta R_curr R_prev s1 delta_t velocity_delta.
           GetAngularDelta s (length (imu_data_buff s) - 1) 0 = Some angular_delta
         \<and> UpdateOrientation angular_delta s = (R_curr, R_prev, s1)
         \<and> GetVelocityDelta s1 (length (imu_data_buff s) - 1) 0 R_curr R_prev
             = Some (delta_t, velocity_delta)
         \<and> UpdatePose SyncData s =
             Some (True, (UpdatePosition delta_t velocity_delta s1)
                           \<lparr>imu_data_buff := [last (imu_data_buff s)],
                            odom_data_buff := [last (odom_data_buff s)]\<rparr>)"
proof -
  have "odom_data_buff s \<noteq> []"
    using session_odom_nonempty [OF assms(2)] assms(1,3) by simp
  then show ?thesis by (rule UpdatePose_integrating [OF assms(3,4)])
qed

text \<open>After the initializing call of the example above and one more inertial sample.\<close>

theorem integrating_cycle_commits_witness:
  "\<exists>s'. UpdatePose sync_valid
     (ReadData [imu_at 1.1 (Vector3d 0 0 0) (Vector3d 0 0 (- 9.81))] []
       ((integrating_state identity3 (Vector3d 5 6 7) (Vector3d 1 0 0)
          [imu_at 1 (Vector3d 0 0 0) (Vector3d 0 0 (- 9.81))]
          [odom_at 0.9 (pose_of identity3 (Vector3d 5 6 7)) (Vector3d 1 0 0)])
        \<lparr>init_time := 0.9,
         unsynced_odom := [odom_at 0.9 (pose_of identity3 (Vector3d 5 6 7)) (Vector3d 1 0 0)]\<rparr>))
     = Some (True, s')
   \<and> imu_data_buff s' = [imu_at 1.1 (Vector3d 0 0 0) (Vector3d 0 0 (- 9.81))]
   \<and> odom_data_buff s' = [odom_at 0.9 (pose_of identity3 (Vector3d 5 6 7)) (Vector3d 1 0 0)]"
proof -
  let ?s0 = "waiting_state [imu_at 1 (Vector3d 0 0 0) (Vector3d 0 0 (- 9.81))]
        [odom_at 0.9 (pose_of identity3 (Vector3d 5 6 7)) (Vector3d 1 0 0)]"
  let ?s1 = "(integrating_state identity3 (Vector3d 5 6 7) (Vector3d 1 0 0)
          [imu_at 1 (Vector3d 0 0 0) (Vector3d 0 0 (- 9.81))]
          [odom_at 0.9 (pose_of identity3 (Vector3d 5 6 7)) (Vector3d 1 0 0)])
        \<lparr>init_time := 0.9,
         unsynced_odom := [odom_at 0.9 (pose_of identity3 (Vector3d 5 6 7)) (Vector3d 1 0 0)]\<rparr>"
  let ?s2 = "ReadData [imu_at 1.1 (Vector3d 0 0 0) (Vector3d 0 0 (- 9.81))] [] ?s1"
  have un: "\<not> initialized ?s0" by (simp add: waiting_state_def)
  have "session sync_valid ?s0 ?s1"
    by (rule session_update [OF session_start UpdatePose_waiting_example])
  then have ses: "session sync_valid ?s0 ?s2" by (rule session_read)
  have i2: "initialized ?s2" by (simp add: ReadData_def integrating_state_def)
  have n2: "2 \<le> length (imu_data_buff ?s2)" by (simp add: ReadData_def integrating_state_def)
  from integrating_cycle_commits [OF un ses i2 n2]
  show ?thesis
    by (auto simp: ReadData_def integrating_state_def)
qed

subsection \<open>The stationary scenario\<close>

lemma UpdateOrientation_zero_identity:
  assumes "block33 (Activity.pose s) = identity3"
  shows "UpdateOrientation (Vector3d 0 0 0) s = (identity3, identity3, s)"
  using UpdateOrientation_zero [of s] assms is_rotation_identity3 by simp

text \<open>
  Claim C7, as the code has it. Gravity \<open>(0, 0, -9.81)\<close>, zero biases, identity
  orientation, samples at \<open>t = 0\<close> and \<open>t = 0.1\<close> with zero angular velocity, position
  \<open>p\<close> and velocity \<open>u\<close>. The code subtracts the gravity vector from the rotated
  reading. With the specific force \<open>(0, 0, 9.81)\<close> at both samples the compensated
  force is \<open>(0, 0, 19.62)\<close>, the velocity delta is \<open>(0, 0, 1.962)\<close>, and the cycle adds
  \<open>(0, 0, 1.962)\<close> to the velocity and \<open>0.1\<cdot>u + (0, 0, 0.0981)\<close> to the position. With
  the specific force equal to the configured gravity, \<open>(0, 0, -9.81)\<close>, the compensated
  force and the velocity delta are zero, the velocity is unchanged and the position
  advances by \<open>0.1\<cdot>u\<close>. The rotation stays the identity in both cases.
\<close>

theorem stationary_scenario:
  "GetUnbiasedLinearAcc
     (integrating_state identity3 (Vector3d px py pz) (Vector3d ux uy uz)
        [imu_at 0 (Vector3d 0 0 0) (Vector3d 0 0 9.81),
         imu_at 0.1 (Vector3d 0 0 0) (Vector3d 0 0 9.81)] (od # ods))
     (Vector3d 0 0 9.81) identity3 = Vector3d 0 0 19.62
   \<and> GetVelocityDelta
     (integrating_state identity3 (Vector3d px py pz) (Vector3d ux uy uz)
        [imu_at 0 (Vector3d 0 0 0) (Vector3d 0 0 9.81),
         imu_at 0.1 (Vector3d 0 0 0) (Vector3d 0 0 9.81)] (od # ods))
     1 0 identity3 identity3 = Some (0.1, Vector3d 0 0 1.962)
   \<and> UpdatePose SyncData
     (integrating_state identity3 (Vector3d px py pz) (Vector3d ux uy uz)
        [imu_at 0 (Vector3d 0 0 0) (Vector3d 0 0 9.81),
         imu_at 0.1 (Vector3d 0 0 0) (Vector3d 0 0 9.81)] (od # ods))
     = Some (True, integrating_state identity3
         (Vector3d (px + 0.1 * ux) (py + 0.1 * uy) (pz + 0.1 * uz + 0.0981))
         (Vector3d ux uy (uz + 1.962))
         [imu_at 0.1 (Vector3d 0 0 0) (Vector3d 0 0 9.81)] [last (od # ods)])
   \<and> GetUnbiasedLinearAcc
     (integrating_state identity3 (Vector3d px py pz) (Vector3d ux uy uz)
        [imu_at 0 (Vector3d 0 0 0) (Vector3d 0 0 (- 9.81)),
         imu_at 0.1 (Vector3d 0 0 0) (Vector3d 0 0 (- 9.81))] (od # ods))
     (Vector3d 0 0 (- 9.81)) identity3 = Vector3d 0 0 0
   \<and> GetVelocityDelta
     (integrating_state identity3 (Vector3d px py pz) (Vector3d ux uy uz)
        [imu_at 0 (Vector3d 0 0 0) (Vector3d 0 0 (- 9.81)),
         imu_at 0.1 (Vector3d 0 0 0) (Vector3d 0 0 (- 9.81))] (od # ods))
     1 0 identity3 identity3 = Some (0.1, Vector3d 0 0 0)
   \<and> UpdatePose SyncData
     (integrating_state identity3 (Vector3d px py pz) (Vector3d ux uy uz)
        [imu_at 0 (Vector3d 0 0 0) (Vector3d 0 0 (- 9.81)),
         imu_at 0.1 (Vector3d 0 0 0) (Vector3d 0 0 (- 9.81))] (od # ods))
     = Some (True, integrating_state identity3
         (Vector3d (px + 0.1 * ux) (py + 0.1 * uy) (pz + 0.1 * uz))
         (Vector3d ux uy uz)
         [imu_at 0.1 (Vector3d 0 0 0) (Vector3d 0 0 (- 9.81))] [last (od # ods)])"
  by (simp add: UpdatePose_def GetAngularDelta_def GetUnbiasedAngularVel_def Let_def
      integrating_state_def imu_at_def UpdateOrientation_zero_identity pose_of_def
      GetVelocityDelta_def GetUnbiasedLinearAcc_def UpdatePosition_def)

text \<open>At rest at the origin, reading the configured gravity: nothing moves.\<close>

theorem stationary_scenario_witness:
  "UpdatePose sync_invalid
     (integrating_state identity3 (Vector3d 0 0 0) (Vector3d 0 0 0)
        [imu_at 0 (Vector3d 0 0 0) (Vector3d 0 0 (- 9.81)),
         imu_at 0.1 (Vector3d 0 0 0) (Vector3d 0 0 (- 9.81))]
        [odom_at 0 (pose_of identity3 (Vector3d 0 0 0)) (Vector3d 0 0 0)])
     = Some (True, integrating_state identity3 (Vector3d 0 0 0) (Vector3d 0 0 0)
         [imu_at 0.1 (Vector3d 0 0 0) (Vector3d 0 0 (- 9.81))]
         [odom_at 0 (pose_of identity3 (Vector3d 0 0 0)) (Vector3d 0 0 0)])"
  using stationary_scenario [of 0 0 0 0 0 0
      "odom_at 0 (pose_of identity3 (Vector3d 0 0 0)) (Vector3d 0 0 0)" "[]" sync_invalid]
  by simp

text \<open>
  The claim as it was stated fails: at rest at the origin and reading \<open>(0, 0, 9.81)\<close>,
  the compensated force is not zero and one cycle changes velocity and position.
\<close>

theorem stationary_scenario_counterexample:
  "GetUnbiasedLinearAcc
     (integrating_state identity3 (Vector3d 0 0 0) (Vector3d 0 0 0)
        [imu_at 0 (Vector3d 0 0 0) (Vector3d 0 0 9.81),
         imu_at 0.1 (Vector3d 0 0 0) (Vector3d 0 0 9.81)]
        [odom_at 0 (pose_of identity3 (Vector3d 0 0 0)) (Vector3d 0 0 0)])
     (Vector3d 0 0 9.81) identity3 \<noteq> Vector3d 0 0 0
   \<and> GetVelocityDelta
     (integrating_state identity3 (Vector3d 0 0 0) (Vector3d 0 0 0)
        [imu_at 0 (Vector3d 0 0 0) (Vector3d 0 0 9.81),
         imu_at 0.1 (Vector3d 0 0 0) (Vector3d 0 0 9.81)]
        [odom_at 0 (pose_of identity3 (Vector3d 0 0 0)) (Vector3d 0 0 0)])
     1 0 identity3 identity3 = Some (0.1, Vector3d 0 0 1.962)
   \<and> UpdatePose sync_invalid
     (integrating_state identity3 (Vector3d 0 0 0) (Vector3d 0 0 0)
        [imu_at 0 (Vector3d 0 0 0) (Vector3d 0 0 9.81),
         imu_at 0.1 (Vector3d 0 0 0) (Vector3d 0 0 9.81)]
        [odom_at 0 (pose_of identity3 (Vector3d 0 0 0)) (Vector3d 0 0 0)])
     = Some (True, integrating_state identity3 (Vector3d 0 0 0.0981) (Vector3d 0 0 1.962)
         [imu_at 0.1 (Vector3d 0 0 0) (Vector3d 0 0 9.81)]
         [odom_at 0 (pose_of identity3 (Vector3d 0 0 0)) (Vector3d 0 0 0)])"
  by (simp add: UpdatePose_def GetAngularDelta_def GetUnbiasedAngularVel_def Let_def
      integrating_state_def imu_at_def UpdateOrientation_zero_identity pose_of_def
      GetVelocityDelta_def GetUnbiasedLinearAcc_def UpdatePosition_def)

end
